theory Spec2Isabelle
  imports Main "HOL-Library.Word" "HOL-Library.Multiset"
begin

unbundle bit_operations_syntax

section \<open>Offline storage decoder of pgdump-offline: data model and operations\<close>

text \<open>
  Bytes are 8-bit words, byte slices are lists. Go's \<open>int\<close> is the 64-bit signed
  integer; it is modelled by \<open>int\<close> (or \<open>nat\<close> for lengths and positions that the
  code keeps non-negative), since no arithmetic of the modelled functions can reach
  the 64-bit limits on inputs that fit in memory. Fixed-width fields read from a file
  (\<open>uint16\<close>, \<open>uint32\<close>, \<open>uint64\<close>, \<open>int32\<close>) are words.
\<close>

type_synonym byte = "8 word"

datatype error =
    SyntaxError string
  | RangeError string
  | InvalidStartBlock string
  | StartBlockNegative
  | InvalidEndBlock string
  | EndBlockNegative
  | InvalidBlockNumber string
  | BlockNumberNegative
  | StartGreaterThanEnd int int
  | RelmapTooSmall nat
  | InvalidRelmapMagic "32 word"
  | InvalidNumMappings int
  | DataTooShort
  | NoSuchFile "string list"
  | WALPageTooSmall
  | InvalidWALMagic "16 word"
  | InvalidOffset
  | OffsetTooLarge

subsection \<open>Block ranges (pgdump/segment.go)\<close>

text \<open>
  \<open>strconv.Atoi\<close> of Go's standard library on a 64-bit platform: an optional sign, then
  one or more decimal digits; anything else is a syntax error, a value outside the
  range of \<open>int64\<close> is a range error.
\<close>

fun digitsVal :: "nat \<Rightarrow> string \<Rightarrow> nat option" where
  "digitsVal n [] = Some n"
| "digitsVal n (ch # s) =
     (if 48 \<le> (of_char ch :: nat) \<and> (of_char ch :: nat) \<le> 57
      then digitsVal (n * 10 + ((of_char ch :: nat) - 48)) s
      else None)"

definition Atoi :: "string \<Rightarrow> error + int" where
  "Atoi s0 =
     (let s = (case s0 of
                 [] \<Rightarrow> []
               | c # r \<Rightarrow> if c = CHR ''-'' \<or> c = CHR ''+'' then r else s0)
      in if s = [] then Inl (SyntaxError s0)
         else case digitsVal 0 s of
                None \<Rightarrow> Inl (SyntaxError s0)
              | Some n \<Rightarrow>
                  if hd s0 = CHR ''-''
                  then (if 2 ^ 63 < n then Inl (RangeError s0) else Inr (- int n))
                  else (if 2 ^ 63 \<le> n then Inl (RangeError s0) else Inr (int n)))"

fun HasPrefix :: "string \<Rightarrow> string \<Rightarrow> bool" where
  "HasPrefix s [] = True"
| "HasPrefix [] (p # ps) = False"
| "HasPrefix (c # s) (p # ps) = (c = p \<and> HasPrefix s ps)"

fun Contains :: "string \<Rightarrow> string \<Rightarrow> bool" where
  "Contains [] sub = (sub = [])"
| "Contains (c # s) sub = (HasPrefix (c # s) sub \<or> Contains s sub)"

text \<open>
  \<open>strings.SplitN(s, sep, 2)\<close> where \<open>sep\<close> occurs in \<open>s\<close>: the part before the first
  occurrence and the part after it (\<open>parts[0]\<close>, \<open>parts[1]\<close>).
\<close>

fun SplitN2 :: "string \<Rightarrow> string \<Rightarrow> string \<times> string" where
  "SplitN2 [] sep = ([], [])"
| "SplitN2 (c # s) sep =
     (if HasPrefix (c # s) sep then ([], drop (length sep) (c # s))
      else (c # fst (SplitN2 s sep), snd (SplitN2 s sep)))"

record BlockRange =
  Start :: int
  End :: int

text \<open>
  \<open>ParseBlockRange\<close> returns \<open>(*BlockRange, error)\<close>: \<open>Inl\<close> is the error,
  \<open>Inr None\<close> the nil range of the empty string.
\<close>

definition ParseBlockRange :: "string \<Rightarrow> error + BlockRange option" where
  "ParseBlockRange s =
     (if s = [] then Inr None
      else
        let br = \<lparr>Start = - 1, End = - 1\<rparr>;
            parsed =
              (if Contains s '':'' then
                 (let parts = SplitN2 s '':'';
                      r1 = (if fst parts \<noteq> [] then
                              (case Atoi (fst parts) of
                                 Inl e \<Rightarrow> Inl (InvalidStartBlock (fst parts))
                               | Inr start \<Rightarrow>
                                   if start < 0 then Inl StartBlockNegative
                                   else Inr (br\<lparr>Start := start\<rparr>))
                            else Inr br)
                  in case r1 of
                       Inl e \<Rightarrow> Inl e
                     | Inr br1 \<Rightarrow>
                         if snd parts \<noteq> [] then
                           (case Atoi (snd parts) of
                              Inl e \<Rightarrow> Inl (InvalidEndBlock (snd parts))
                            | Inr end' \<Rightarrow>
                                if end' < 0 then Inl EndBlockNegative
                                else Inr (br1\<lparr>End := end'\<rparr>))
                         else Inr br1)
               else
                 (case Atoi s of
                    Inl e \<Rightarrow> Inl (InvalidBlockNumber s)
                  | Inr block \<Rightarrow>
                      if block < 0 then Inl BlockNumberNegative
                      else Inr (br\<lparr>Start := block, End := block\<rparr>)))
        in case parsed of
             Inl e \<Rightarrow> Inl e
           | Inr br2 \<Rightarrow>
               if 0 \<le> Start br2 \<and> 0 \<le> End br2 \<and> End br2 < Start br2
               then Inl (StartGreaterThanEnd (Start br2) (End br2))
               else Inr (Some br2))"

subsection \<open>OID to filenode map (pgdump/relmap.go)\<close>

text \<open>
  The slice expression \<open>data[lo:hi]\<close>. Go panics when \<open>hi\<close> exceeds the length; every
  use below is behind a length check of the source that makes the bounds valid.
\<close>

definition subslice :: "'a list \<Rightarrow> nat \<Rightarrow> nat \<Rightarrow> 'a list" where
  "subslice data lo hi = take (hi - lo) (drop lo data)"

text \<open>\<open>binary.LittleEndian.Uint16\<close>, \<open>Uint32\<close> and \<open>Uint64\<close> on a slice that is long enough.\<close>

definition Uint16 :: "byte list \<Rightarrow> 16 word" where
  "Uint16 b = ucast (b ! 0) OR push_bit 8 (ucast (b ! 1))"

definition Uint32 :: "byte list \<Rightarrow> 32 word" where
  "Uint32 b = ucast (b ! 0) OR push_bit 8 (ucast (b ! 1))
              OR push_bit 16 (ucast (b ! 2)) OR push_bit 24 (ucast (b ! 3))"

definition Uint64 :: "byte list \<Rightarrow> 64 word" where
  "Uint64 b = ucast (b ! 0) OR push_bit 8 (ucast (b ! 1))
              OR push_bit 16 (ucast (b ! 2)) OR push_bit 24 (ucast (b ! 3))
              OR push_bit 32 (ucast (b ! 4)) OR push_bit 40 (ucast (b ! 5))
              OR push_bit 48 (ucast (b ! 6)) OR push_bit 56 (ucast (b ! 7))"

definition RelMapMagic :: "32 word" where
  "RelMapMagic = 0x592717"

definition RelMapMaxMappings :: nat where
  "RelMapMaxMappings = 62"

record RelMapping =
  OID :: "32 word"
  Filenode :: "32 word"

text \<open>\<open>NumMappings\<close> is an \<open>int32\<close>: the word is read with \<open>sint\<close>.\<close>

record RelMapFile =
  Magic :: "32 word"
  NumMappings :: "32 word"
  Mappings :: "RelMapping list"
  CRC :: "32 word"
  IsGlobal :: bool
  Path :: string

text \<open>
  The loop \<open>for i := 0; i < rm.NumMappings; i++\<close>: the first argument counts the
  iterations that remain, \<open>offset\<close> and the mappings read so far are the loop state.
\<close>

fun readMappings :: "nat \<Rightarrow> byte list \<Rightarrow> nat \<Rightarrow> RelMapping list \<Rightarrow> RelMapping list" where
  "readMappings 0 data offset ms = ms"
| "readMappings (Suc n) data offset ms =
     (if length data < offset + 8 then ms
      else readMappings n data (offset + 8)
             (ms @ [\<lparr>OID = Uint32 (subslice data offset (offset + 4)),
                      Filenode = Uint32 (subslice data (offset + 4) (offset + 8))\<rparr>]))"

definition ParseRelMapFile :: "byte list \<Rightarrow> error + RelMapFile" where
  "ParseRelMapFile data =
     (if length data < 512 then Inl (RelmapTooSmall (length data))
      else
        let magic = Uint32 (subslice data 0 4) in
        if magic \<noteq> RelMapMagic then Inl (InvalidRelmapMagic magic)
        else
          let num = Uint32 (subslice data 4 8) in
          if sint num < 0 \<or> int RelMapMaxMappings < sint num
          then Inl (InvalidNumMappings (sint num))
          else
            let ms = readMappings (nat (sint num)) data 8 [];
                crcOffset = 8 + RelMapMaxMappings * 8
            in Inr \<lparr>Magic = magic, NumMappings = num, Mappings = ms,
                     CRC = (if crcOffset + 4 \<le> length data
                            then Uint32 (subslice data crcOffset (crcOffset + 4)) else 0),
                     IsGlobal = False, Path = []\<rparr>)"

fun firstFilenode :: "RelMapping list \<Rightarrow> 32 word \<Rightarrow> 32 word" where
  "firstFilenode [] oid = 0"
| "firstFilenode (m # ms) oid = (if OID m = oid then Filenode m else firstFilenode ms oid)"

definition GetFilenode :: "RelMapFile \<Rightarrow> 32 word \<Rightarrow> 32 word" where
  "GetFilenode rm oid = firstFilenode (Mappings rm) oid"

fun firstOID :: "RelMapping list \<Rightarrow> 32 word \<Rightarrow> 32 word" where
  "firstOID [] filenode = 0"
| "firstOID (m # ms) filenode = (if Filenode m = filenode then OID m else firstOID ms filenode)"

definition GetOID :: "RelMapFile \<Rightarrow> 32 word \<Rightarrow> 32 word" where
  "GetOID rm filenode = firstOID (Mappings rm) filenode"

text \<open>
  Two concrete 512-byte map files. \<open>relmap_example\<close> holds the mappings
  \<open>(1262, 1262)\<close> and \<open>(1259, 16384)\<close>; \<open>relmap_dup\<close> holds \<open>(1, 10)\<close> and \<open>(1, 20)\<close>,
  the same OID twice.
\<close>

definition relmap_example :: "byte list" where
  "relmap_example =
     [0x17, 0x27, 0x59, 0x00,  0x02, 0x00, 0x00, 0x00,
      0xEE, 0x04, 0x00, 0x00,  0xEE, 0x04, 0x00, 0x00,
      0xEB, 0x04, 0x00, 0x00,  0x00, 0x40, 0x00, 0x00] @ replicate 488 0"

definition relmap_dup :: "byte list" where
  "relmap_dup =
     [0x17, 0x27, 0x59, 0x00,  0x02, 0x00, 0x00, 0x00,
      0x01, 0x00, 0x00, 0x00,  0x0A, 0x00, 0x00, 0x00,
      0x01, 0x00, 0x00, 0x00,  0x14, 0x00, 0x00, 0x00] @ replicate 488 0"

subsection \<open>Block information (pgdump/segment.go)\<close>

text \<open>
  Modelled from the spec: the constant \<open>PageSize\<close> is declared outside the given sources.
  The specification fixes the page at 8192 bytes.
\<close>

definition PageSize :: nat where
  "PageSize = 8192"

text \<open>
  Modelled from the spec: the constant \<open>headerSize\<close> is declared outside the given
  sources. The specification has a 24-byte page header.
\<close>

definition headerSize :: nat where
  "headerSize = 24"

text \<open>
  Modelled from the spec: the constant \<open>itemIDSize\<close> is declared outside the given
  sources. The specification has item pointers of 4 bytes.
\<close>

definition itemIDSize :: nat where
  "itemIDSize = 4"

text \<open>
  Modelled from the spec: the reader \<open>u16\<close> is declared outside the given sources. The
  specification has the integer readers "read little-endian at a given offset with
  bounds checking, returning zero if out of range".
\<close>

definition u16 :: "byte list \<Rightarrow> nat \<Rightarrow> 16 word" where
  "u16 data off = (if off + 2 \<le> length data then Uint16 (subslice data off (off + 2)) else 0)"

text \<open>
  Modelled from the spec: the reader \<open>u64\<close> is declared outside the given sources; it is
  specified with \<open>u16\<close>.
\<close>

definition u64 :: "byte list \<Rightarrow> nat \<Rightarrow> 64 word" where
  "u64 data off = (if off + 8 \<le> length data then Uint64 (subslice data off (off + 8)) else 0)"

text \<open>\<open>fmt.Sprintf("%X", n)\<close>: upper-case hexadecimal without leading zeros.\<close>

definition hexDigit :: "nat \<Rightarrow> char" where
  "hexDigit d = ''0123456789ABCDEF'' ! d"

function hexUpper :: "nat \<Rightarrow> string" where
  "hexUpper n = (if n < 16 then [hexDigit n] else hexUpper (n div 16) @ [hexDigit (n mod 16)])"
  by pat_completeness auto
termination
  by (relation "measure (\<lambda>n. n)") auto

declare hexUpper.simps [simp del]

definition FormatLSN :: "64 word \<Rightarrow> string" where
  "FormatLSN lsn =
     hexUpper (unat (drop_bit 32 lsn)) @ ''/'' @ hexUpper (unat (lsn AND 0xFFFFFFFF))"

record BlockInfo =
  BlockNumber :: "32 word"
  LSN :: string
  Checksum :: "16 word"
  Flags :: "16 word"
  Lower :: "16 word"
  Upper :: "16 word"
  Special :: "16 word"
  InfoPageSize :: int
  Version :: int
  ItemCount :: int
  FreeSpace :: int
  IsEmpty :: bool

text \<open>
  \<open>ParseBlockInfo\<close> returns a pointer: \<open>None\<close> is nil. The field \<open>PageSize\<close> of the
  source's \<open>BlockInfo\<close> is \<open>InfoPageSize\<close> here, the constant has the name. The quotient
  of the item count has a non-negative dividend behind the guard, where Go's truncating
  division and \<open>div\<close> agree.
\<close>

definition ParseBlockInfo :: "byte list \<Rightarrow> 32 word \<Rightarrow> BlockInfo option" where
  "ParseBlockInfo data blockNumber =
     (if length data < PageSize then None
      else
        let info = \<lparr>BlockNumber = blockNumber, LSN = [], Checksum = 0, Flags = 0,
                     Lower = 0, Upper = 0, Special = 0, InfoPageSize = 0, Version = 0,
                     ItemCount = 0, FreeSpace = 0, IsEmpty = False\<rparr>;
            isEmpty = list_all (\<lambda>b. b = 0) (subslice data 0 PageSize)
        in if isEmpty then Some (info\<lparr>IsEmpty := True\<rparr>)
           else
             let lsn = u64 data 0;
                 info1 = info\<lparr>LSN := FormatLSN lsn, Checksum := u16 data 8,
                              Flags := u16 data 10, Lower := u16 data 12,
                              Upper := u16 data 14, Special := u16 data 16\<rparr>;
                 psv = u16 data 18;
                 info2 = info1\<lparr>InfoPageSize := uint (psv AND 0xFF00),
                               Version := uint (psv AND 0x00FF)\<rparr>;
                 info3 = (if int headerSize \<le> uint (Lower info2)
                          then info2\<lparr>ItemCount :=
                                 (uint (Lower info2) - int headerSize) div int itemIDSize\<rparr>
                          else info2);
                 info4 = (if Lower info3 < Upper info3
                          then info3\<lparr>FreeSpace := uint (Upper info3) - uint (Lower info3)\<rparr>
                          else info3)
             in Some info4)"

text \<open>
  A page whose header has \<open>lower = 100\<close> and \<open>upper = 50\<close>, every other byte zero.
\<close>

definition page_upper_below_lower :: "byte list" where
  "page_upper_below_lower = replicate 12 0 @ [100, 0, 50, 0] @ replicate 8176 0"

text \<open>
  The page of the repository's test \<open>TestParseBlockInfo\<close>: \<open>lower = 28\<close>, \<open>upper = 8000\<close>,
  \<open>special = 8192\<close>, page size and version \<open>8192 | 4\<close>.
\<close>

definition page_test :: "byte list" where
  "page_test =
     [0x01, 0, 0, 0, 0, 0, 0, 0,  0x12, 0x34, 0, 0,  28, 0, 0x40, 0x1F,
      0x00, 0x20, 0x04, 0x20] @ replicate 8172 0"

subsection \<open>Large values: decompression and reassembly (TOAST)\<close>

text \<open>
  The TOAST layer is present twice in the sources: the current file (with LZ4 support
  and a pointer argument, the one the repository's tests exercise) and the earlier
  \<open>pgdump/toast.go\<close>. The functions of the earlier file carry the suffix \<open>_legacy\<close>.

  A run of Go code either returns or panics. \<open>Ok\<close> is a return without error, \<open>Err\<close> a
  returned error value, \<open>Panic\<close> a run-time panic. Indexing a slice is \<open>at\<close> and slicing
  it is \<open>sliceGo\<close>, which panic out of range as Go does; the remainder \<open>i % offset\<close> is \<open>modGo\<close>, which panics on a
  zero divisor.
\<close>

datatype panic = IndexOutOfRange | SliceBoundsOutOfRange | MakesliceCapOutOfRange | DivideByZero
  | NilPointerDereference

datatype 'a res = Ok 'a | Err error | Panic panic























definition ToastCompressionPGLZ :: int where
  "ToastCompressionPGLZ = 0"













subsection \<open>Write-ahead log pages (pgdump/wal.go)\<close>

definition WAL_MAGIC_16 :: "16 word" where "WAL_MAGIC_16 = 0xD113"
definition WAL_MAGIC_15 :: "16 word" where "WAL_MAGIC_15 = 0xD110"
definition WAL_MAGIC_14 :: "16 word" where "WAL_MAGIC_14 = 0xD10F"
definition WAL_MAGIC_13 :: "16 word" where "WAL_MAGIC_13 = 0xD10D"
definition WAL_MAGIC_12 :: "16 word" where "WAL_MAGIC_12 = 0xD109"

definition WALPageSize :: nat where "WALPageSize = 8192"
definition XLogRecordSize :: nat where "XLogRecordSize = 24"
definition ShortHeaderSize :: nat where "ShortHeaderSize = 24"
definition LongHeaderSize :: nat where "LongHeaderSize = 40"

definition XLP_FIRST_IS_CONTRECORD :: "16 word" where "XLP_FIRST_IS_CONTRECORD = 0x0001"
definition XLP_LONG_HEADER :: "16 word" where "XLP_LONG_HEADER = 0x0002"

text \<open>
  The fields \<open>Magic\<close> and \<open>Info\<close> of the page header are \<open>PageMagic\<close> and \<open>PageInfo\<close>; the
  fields \<open>CRC\<close>, \<open>LSN\<close> and \<open>Flags\<close> of records and block references carry the prefixes
  \<open>Rec\<close> and \<open>Ref\<close>: record fields are global names in the theory.
\<close>

record WALPageHeader =
  PageMagic :: "16 word"
  PageInfo :: "16 word"
  TimelineID :: "32 word"
  PageAddr :: "64 word"
  RemLen :: "32 word"
  SystemID :: "64 word"
  SegSize :: "32 word"
  BlockSize :: "32 word"

record RelFileNode =
  SpcOID :: "32 word"
  DbOID :: "32 word"
  RelOID :: "32 word"

record WALBlockRef =
  RefID :: byte
  ForkNum :: byte
  RefFlags :: "16 word"
  RefRelFileNode :: "RelFileNode option"
  BlockNum :: "32 word"

record WALRecord =
  TotalLen :: "32 word"
  TransactionID :: "32 word"
  PrevLSN :: "64 word"
  Info :: byte
  ResourceMgr :: byte
  RecCRC :: "32 word"
  RecLSN :: "64 word"
  RMName :: string
  Operation :: string
  Blocks :: "WALBlockRef list"

definition isValidMagic :: "16 word \<Rightarrow> bool" where
  "isValidMagic magic =
     (magic = WAL_MAGIC_16 \<or> magic = WAL_MAGIC_15 \<or> magic = WAL_MAGIC_14
      \<or> magic = WAL_MAGIC_13 \<or> magic = WAL_MAGIC_12)"

text \<open>\<open>isZeroPadding\<close>: the first eight bytes, or all of them when there are fewer, are zero.\<close>

definition isZeroPadding :: "byte list \<Rightarrow> bool" where
  "isZeroPadding data = list_all (\<lambda>b. b = 0) (take 8 data)"

text \<open>\<open>align8(n) = (n + 7) &^ 7\<close> on Go's \<open>int\<close>.\<close>

definition align8 :: "int \<Rightarrow> int" where
  "align8 n = (n + 7) AND NOT 7"

text \<open>\<open>fmt.Sprintf("%d", n)\<close> of an unsigned number.\<close>

definition decDigit :: "nat \<Rightarrow> char" where
  "decDigit d = ''0123456789'' ! d"

function decimal :: "nat \<Rightarrow> string" where
  "decimal n =
     (if n < 10 then [decDigit n] else decimal (n div 10) @ [decDigit (n mod 10)])"
  by pat_completeness auto
termination
  by (relation "measure (\<lambda>n. n)") auto

declare decimal.simps [simp del]

definition rmgrNames :: "(nat \<times> string) list" where
  "rmgrNames =
     [(0, ''XLOG''), (1, ''Transaction''), (2, ''Storage''), (3, ''CLOG''),
      (4, ''Database''), (5, ''Tablespace''), (6, ''MultiXact''), (7, ''RelMap''),
      (8, ''Standby''), (9, ''Heap2''), (10, ''Heap''), (11, ''BTree''), (12, ''Hash''),
      (13, ''GIN''), (14, ''GiST''), (15, ''Sequence''), (16, ''SP-GiST''), (17, ''BRIN''),
      (18, ''CommitTS''), (19, ''ReplOrigin''), (20, ''Generic''), (21, ''LogicalMsg'')]"

definition rmgrName :: "byte \<Rightarrow> string" where
  "rmgrName rmid =
     (case map_of rmgrNames (unat rmid) of
        Some name \<Rightarrow> name
      | None \<Rightarrow> ''RM_'' @ decimal (unat rmid))"

text \<open>
  \<open>operationName\<close>: a table per resource manager, indexed by \<open>info & 0x70\<close> (by
  \<open>info & 0xF0\<close> for XLOG); anything not listed is \<open>fmt.Sprintf("op_0x%02X", info)\<close>.
\<close>

definition operationNames :: "(nat \<times> byte \<times> (nat \<times> string) list) list" where
  "operationNames =
     [(10, 0x70, [(0x00, ''INSERT''), (0x10, ''DELETE''), (0x20, ''UPDATE''),
                  (0x30, ''TRUNCATE''), (0x40, ''HOT_UPDATE''), (0x50, ''CONFIRM''),
                  (0x60, ''LOCK''), (0x70, ''INPLACE'')]),
      (9, 0x70, [(0x00, ''PRUNE''), (0x10, ''VACUUM''), (0x20, ''FREEZE_PAGE''),
                 (0x30, ''VISIBLE''), (0x40, ''MULTI_INSERT''), (0x50, ''LOCK_UPDATED''),
                 (0x60, ''NEW_CID'')]),
      (1, 0x70, [(0x00, ''COMMIT''), (0x10, ''PREPARE''), (0x20, ''ABORT''),
                 (0x30, ''COMMIT_PREPARED''), (0x40, ''ABORT_PREPARED''),
                 (0x50, ''ASSIGNMENT'')]),
      (0, 0xF0, [(0x00, ''CHECKPOINT_SHUTDOWN''), (0x10, ''CHECKPOINT_ONLINE''),
                 (0x20, ''NOOP''), (0x30, ''NEXTOID''), (0x40, ''SWITCH''),
                 (0x50, ''BACKUP_END''), (0x60, ''PARAMETER_CHANGE''),
                 (0x70, ''RESTORE_POINT''), (0x80, ''FPW_CHANGE''),
                 (0x90, ''END_OF_RECOVERY''), (0xA0, ''OVERWRITE_CONTRECORD'')]),
      (2, 0x70, [(0x10, ''CREATE''), (0x20, ''TRUNCATE'')]),
      (4, 0x70, [(0x00, ''CREATE''), (0x10, ''DROP'')]),
      (11, 0x70, [(0x00, ''INSERT_LEAF''), (0x10, ''INSERT_UPPER''), (0x20, ''INSERT_META''),
                  (0x30, ''SPLIT_L''), (0x40, ''SPLIT_R''), (0x60, ''DELETE''),
                  (0x70, ''UNLINK_PAGE'')])]"

definition operationName :: "byte \<Rightarrow> byte \<Rightarrow> string" where
  "operationName rmid info =
     (let fallback = ''op_0x'' @ [hexDigit (unat info div 16), hexDigit (unat info mod 16)] in
      case map_of operationNames (unat rmid) of
        None \<Rightarrow> fallback
      | Some (msk, names) \<Rightarrow>
          (case map_of names (unat (info AND msk)) of
             Some name \<Rightarrow> name
           | None \<Rightarrow> fallback))"

definition parsePageHeader :: "byte list \<Rightarrow> WALPageHeader" where
  "parsePageHeader data =
     (let h = \<lparr>PageMagic = Uint16 (subslice data 0 2),
                PageInfo = Uint16 (subslice data 2 4),
                TimelineID = Uint32 (subslice data 4 8),
                PageAddr = Uint64 (subslice data 8 16),
                RemLen = Uint32 (subslice data 16 20),
                SystemID = 0, SegSize = 0, BlockSize = 0\<rparr>
      in if PageInfo h AND XLP_LONG_HEADER \<noteq> 0 \<and> LongHeaderSize \<le> length data
         then h\<lparr>SystemID := Uint64 (subslice data 24 32),
                SegSize := Uint32 (subslice data 32 36),
                BlockSize := Uint32 (subslice data 36 40)\<rparr>
         else h)"

text \<open>
  One iteration of the loop of \<open>parseBlockRefs\<close>, entered with \<open>pos < len(data)\<close>: \<open>None\<close>
  when the loop is left by \<open>break\<close>, else the block reference and the next position.
  Every index and slice of the WAL functions is behind a length test of the source, so
  they are written with \<open>!\<close> and \<open>subslice\<close>.
\<close>

definition parseBlockRef :: "byte list \<Rightarrow> nat \<Rightarrow> (WALBlockRef \<times> nat) option" where
  "parseBlockRef data pos =
     (let blockID = data ! pos;
          pos1 = pos + 1
      in if blockID = 0xFF \<or> blockID = 0xFE then None
         else if 32 < blockID then None
         else if length data < pos1 + 1 then None
         else
           let forkFlags = data ! pos1;
               pos2 = pos1 + 1;
               block = \<lparr>RefID = blockID, ForkNum = forkFlags AND 0x0F,
                        RefFlags = ucast forkFlags, RefRelFileNode = None, BlockNum = 0\<rparr>;
               hasImage = (forkFlags AND 0x10 \<noteq> 0);
               hasData = (forkFlags AND 0x20 \<noteq> 0);
               hasSameRel = (forkFlags AND 0x40 \<noteq> 0);
               (block1, pos3) =
                 (if \<not> hasSameRel \<and> pos2 + 12 \<le> length data
                  then (block\<lparr>RefRelFileNode :=
                          Some \<lparr>SpcOID = Uint32 (subslice data pos2 (pos2 + 4)),
                                DbOID = Uint32 (subslice data (pos2 + 4) (pos2 + 8)),
                                RelOID = Uint32 (subslice data (pos2 + 8) (pos2 + 12))\<rparr>\<rparr>,
                        pos2 + 12)
                  else (block, pos2));
               (block2, pos4) =
                 (if pos3 + 4 \<le> length data
                  then (block1\<lparr>BlockNum := Uint32 (subslice data pos3 (pos3 + 4))\<rparr>, pos3 + 4)
                  else (block1, pos3));
               pos5 = (if hasImage \<and> pos4 + 2 \<le> length data
                       then pos4 + 2 + unat (Uint16 (subslice data pos4 (pos4 + 2)))
                       else pos4);
               pos6 = (if hasData \<and> pos5 + 2 \<le> length data
                       then pos5 + 2 + unat (Uint16 (subslice data pos5 (pos5 + 2)))
                       else pos5)
           in Some (block2, pos6))"

lemma parseBlockRef_pos:
  "parseBlockRef data pos = Some (block, pos') \<Longrightarrow> pos < pos'"
  by (auto simp: parseBlockRef_def Let_def split: if_splits)

function parseBlockRefsFrom :: "byte list \<Rightarrow> nat \<Rightarrow> WALBlockRef list \<Rightarrow> WALBlockRef list" where
  "parseBlockRefsFrom data pos blocks =
     (if pos < length data then
        (case parseBlockRef data pos of
           None \<Rightarrow> blocks
         | Some (block, pos') \<Rightarrow> parseBlockRefsFrom data pos' (blocks @ [block]))
      else blocks)"
  by pat_completeness auto
termination
proof (relation "measure (\<lambda>(data, pos, blocks). length data - pos)")
  show "wf (measure (\<lambda>(data, pos, blocks). length data - pos))"
    by simp
next
  fix data :: "byte list" and pos :: nat and blocks :: "WALBlockRef list"
    and x :: "WALBlockRef \<times> nat" and block :: WALBlockRef and pos' :: nat
  assume guard: "pos < length data"
    and "parseBlockRef data pos = Some x"
    and "(block, pos') = x"
  then have "parseBlockRef data pos = Some (block, pos')"
    by simp
  then have "pos < pos'"
    by (rule parseBlockRef_pos)
  with guard show "((data, pos', blocks @ [block]), (data, pos, blocks))
        \<in> measure (\<lambda>(data, pos, blocks). length data - pos)"
    by auto
qed

declare parseBlockRefsFrom.simps [simp del]

definition parseBlockRefs :: "byte list \<Rightarrow> WALBlockRef list" where
  "parseBlockRefs data = parseBlockRefsFrom data 0 []"

text \<open>
  \<open>parseXLogRecord\<close> returns the record (nil as \<open>None\<close>) and the number of bytes
  consumed.
\<close>

definition parseXLogRecord :: "byte list \<Rightarrow> 64 word \<Rightarrow> WALRecord option \<times> nat" where
  "parseXLogRecord data lsn =
     (if length data < XLogRecordSize then (None, 0)
      else
        let totalLen = Uint32 (subslice data 0 4) in
        if unat totalLen < XLogRecordSize \<or> WALPageSize * 2 < unat totalLen then (None, 0)
        else
          let rec = \<lparr>TotalLen = totalLen,
                      TransactionID = Uint32 (subslice data 4 8),
                      PrevLSN = Uint64 (subslice data 8 16),
                      Info = data ! 16,
                      ResourceMgr = data ! 17,
                      RecCRC = Uint32 (subslice data 20 24),
                      RecLSN = lsn,
                      RMName = rmgrName (data ! 17),
                      Operation = operationName (data ! 17) (data ! 16),
                      Blocks = []\<rparr>;
              rec1 = (if XLogRecordSize < unat totalLen \<and> unat totalLen \<le> length data
                      then rec\<lparr>Blocks := parseBlockRefs (subslice data XLogRecordSize (unat totalLen))\<rparr>
                      else rec)
          in (Some rec1, unat totalLen))"

text \<open>\<open>align8\<close> rounds up to the next multiple of eight.\<close>

lemma and_not_7: "(k::int) AND NOT 7 = 8 * (k div 8)"
proof -
  have m: "(7::int) = mask 3" by (simp add: mask_eq_exp_minus_1)
  have "k AND NOT (mask 3) = push_bit 3 (drop_bit 3 k)"
    by (rule bit_eqI) (auto simp: bit_simps)
  then show ?thesis
    by (simp add: m push_bit_eq_mult drop_bit_eq_div)
qed

lemma align8_eq: "align8 n = 8 * ((n + 7) div 8)"
  by (simp only: align8_def and_not_7)

lemma align8_ge: "n \<le> align8 n"
  unfolding align8_eq by presburger

lemma align8_lt: "align8 n < n + 8"
  unfolding align8_eq by presburger

lemma align8_dvd: "8 dvd align8 n"
  unfolding align8_eq by simp

lemma align8_24: "align8 24 = 24" "align8 40 = 40"
  by (simp_all add: align8_eq)
text \<open>
  The record loop of \<open>parseWALPage\<close>:
  \<open>for pos+XLogRecordSize <= len(data) { ... pos += consumed; pos = align8(pos) }\<close>.
\<close>

function walRecords :: "byte list \<Rightarrow> 64 word \<Rightarrow> nat \<Rightarrow> WALRecord list \<Rightarrow> WALRecord list" where
  "walRecords data baseOffset pos records =
     (if pos + XLogRecordSize \<le> length data then
        if isZeroPadding (drop pos data) then records
        else
          (case parseXLogRecord (drop pos data) (baseOffset + of_nat pos) of
             (rec, consumed) \<Rightarrow>
               if consumed = 0 then records
               else walRecords data baseOffset (nat (align8 (int (pos + consumed))))
                      (case rec of None \<Rightarrow> records | Some r \<Rightarrow> records @ [r]))
      else records)"
  by pat_completeness auto
termination
proof (relation "measure (\<lambda>(data, baseOffset, pos, records). length data - pos)")
  show "wf (measure (\<lambda>(data, baseOffset, pos, records). length data - pos))"
    by simp
next
  fix data :: "byte list" and baseOffset :: "64 word" and pos :: nat
    and records :: "WALRecord list" and x :: "WALRecord option \<times> nat"
    and rec :: "WALRecord option" and consumed :: nat
  assume guard: "pos + XLogRecordSize \<le> length data"
    and "consumed \<noteq> 0"
  moreover have "int (pos + consumed) \<le> align8 (int (pos + consumed))"
    by (rule align8_ge)
  ultimately have "pos < nat (align8 (int (pos + consumed)))" "pos < length data"
    by (simp_all add: XLogRecordSize_def)
  then show "((data, baseOffset, nat (align8 (int (pos + consumed))),
               case rec of None \<Rightarrow> records | Some r \<Rightarrow> records @ [r]),
              (data, baseOffset, pos, records))
        \<in> measure (\<lambda>(data, baseOffset, pos, records). length data - pos)"
    by auto
qed

declare walRecords.simps [simp del]

text \<open>\<open>parseWALPage\<close> returns \<open>([]WALRecord, error)\<close>; the page number is not used.\<close>

definition parseWALPage :: "byte list \<Rightarrow> 64 word \<Rightarrow> int \<Rightarrow> error + WALRecord list" where
  "parseWALPage data baseOffset pageNum =
     (if length data < ShortHeaderSize then Inl WALPageTooSmall
      else
        let header = parsePageHeader data in
        if \<not> isValidMagic (PageMagic header) then Inl (InvalidWALMagic (PageMagic header))
        else
          let headerSize = (if PageInfo header AND XLP_LONG_HEADER \<noteq> 0
                            then LongHeaderSize else ShortHeaderSize);
              pos = (if PageInfo header AND XLP_FIRST_IS_CONTRECORD \<noteq> 0 \<and> 0 < RemLen header
                     then nat (align8 (int (headerSize + unat (RemLen header))))
                     else headerSize)
          in Inr (walRecords data baseOffset pos []))"

text \<open>
  A page fragment: a short header of engine version 16 with the continuation flag and
  \<open>remaining_length = 5\<close>, padding up to offset 32, and one 24-byte record (transaction
  7, resource manager 10, info \<open>0x00\<close>) at offset 32.
\<close>

definition wal_cont_page :: "byte list" where
  "wal_cont_page =
     [0x13, 0xD1, 0x01, 0x00,  0x01, 0x00, 0x00, 0x00,
      0x00, 0x00, 0x00, 0x01,  0x00, 0x00, 0x00, 0x00,
      0x05, 0x00, 0x00, 0x00,  0x00, 0x00, 0x00, 0x00,
      0xAA, 0xAA, 0xAA, 0xAA,  0xAA, 0x00, 0x00, 0x00,
      0x18, 0x00, 0x00, 0x00,  0x07, 0x00, 0x00, 0x00,
      0x00, 0x00, 0x00, 0x00,  0x00, 0x00, 0x00, 0x00,
      0x00, 0x0A, 0x00, 0x00,  0x78, 0x56, 0x34, 0x12]"

subsection \<open>Heap tuples: reading and decoding\<close>

text \<open>
  The declarations of \<open>HeapTupleData\<close>, its header, \<open>TupleEntry\<close> and \<open>Column\<close> are outside
  the given sources; the records below have the fields the given code reads and
  writes. A tuple pointer that may be nil is an \<open>option\<close>. A decoded value
  (\<open>interface{}\<close>) is nil, a Go string, or whatever \<open>DecodeType\<close> returns; a row
  (\<open>map[string]interface{}\<close>) is a map from column names.
\<close>

record HeapTupleHeader =
  XminCommitted :: bool
  XmaxCommitted :: bool
  XmaxInvalid :: bool

record HeapTupleData =
  Header :: HeapTupleHeader
  Bitmap :: "byte list option"
  Data :: "byte list"

record TupleEntry =
  PageOffset :: nat
  ItemOffset :: nat
  Tuple :: "HeapTupleData option"

record Column =
  Name :: string
  TypID :: int
  Len :: int
  Num :: int
  Align :: byte

datatype 'v val = Nil | Str "byte list" | Decoded 'v

type_synonym 'v row = "string \<rightharpoonup> 'v val"

text \<open>
  Functions and constants of the repository that the given sources call but do not
  contain are parameters of the model, collected in one record: the page parser, the
  null-bitmap test \<open>tuple.IsNull(num)\<close>, the varlena reader (payload, nil as \<open>None\<close>, and
  bytes consumed), the type decoder, the type identifiers of each alignment class of
  \<open>typeAlign\<close> (the constants \<open>OidInt8\<close>, \<open>OidInt4\<close>, ... of the \<open>case\<close> arms that return 8,
  4, 2 and 1), the three catalog parsers, \<open>TypeName\<close>, and \<open>strings.ToLower\<close> of the
  standard library. \<open>ParsePGClass\<close> returns a Go map keyed by filenode; it is given as
  the list of its entries in the order the \<open>range\<close> loop visits them.
\<close>

record DatabaseInfo =
  DbInfoOID :: "32 word"
  DbInfoName :: string

record TableInfo =
  TblOID :: "32 word"
  TblName :: string
  TblFilenode :: "32 word"
  TblKind :: string

record AttrInfo =
  AttrName :: string
  AttrTypID :: int
  AttrLen :: int
  AttrNum :: int

record 'v externals =
  ParsePage :: "byte list \<Rightarrow> TupleEntry list"
  IsNull :: "HeapTupleData \<Rightarrow> int \<Rightarrow> bool"
  ReadVarlena :: "byte list \<Rightarrow> byte list option \<times> nat"
  DecodeType :: "byte list \<Rightarrow> int \<Rightarrow> 'v"
  OidsAlign8 :: "int list"
  OidsAlign4 :: "int list"
  OidsAlign2 :: "int list"
  OidsAlign1 :: "int list"
  ParsePGDatabase :: "byte list \<Rightarrow> DatabaseInfo list"
  ParsePGClass :: "byte list \<Rightarrow> (32 word \<times> TableInfo) list"
  ParsePGAttribute :: "byte list \<Rightarrow> int \<Rightarrow> 32 word \<Rightarrow> AttrInfo list"
  TypeName :: "int \<Rightarrow> string"
  ToLower :: "string \<Rightarrow> string"

text \<open>
  Modelled from the spec: \<open>IsVisible\<close> is a method of the tuple declared outside the
  given sources. The specification: "A tuple is visible iff xmin is committed AND xmax
  is invalid (or uncommitted)."
\<close>

definition IsVisible :: "HeapTupleData \<Rightarrow> bool" where
  "IsVisible t =
     (XminCommitted (Header t) \<and> (XmaxInvalid (Header t) \<or> \<not> XmaxCommitted (Header t)))"

text \<open>
  Modelled from the spec: \<open>align\<close> is declared outside the given sources. The
  specification: "\<open>align(offset, n)\<close> rounds up to a multiple of \<open>n\<close>."
\<close>

definition align :: "nat \<Rightarrow> nat \<Rightarrow> nat" where
  "align offset n = ((offset + n - 1) div n) * n"

text \<open>
  The test \<open>!visibleOnly || e.Tuple.IsVisible()\<close> of \<open>ReadTuples\<close>; \<open>IsVisible\<close> reads the
  header of its receiver, which panics on a nil tuple.
\<close>

definition keepEntry :: "bool \<Rightarrow> TupleEntry \<Rightarrow> bool res" where
  "keepEntry visibleOnly e =
     (if \<not> visibleOnly then Ok True
      else case Tuple e of
             None \<Rightarrow> Panic NilPointerDereference
           | Some t \<Rightarrow> Ok (IsVisible t))"

text \<open>The inner loop of \<open>ReadTuples\<close> over the entries of the page at \<open>off\<close>.\<close>

fun pageEntries :: "bool \<Rightarrow> nat \<Rightarrow> TupleEntry list \<Rightarrow> TupleEntry list \<Rightarrow> TupleEntry list res" where
  "pageEntries visibleOnly off [] entries = Ok entries"
| "pageEntries visibleOnly off (e # es) entries =
     (case keepEntry visibleOnly e of
        Panic p \<Rightarrow> Panic p
      | Err x \<Rightarrow> Err x
      | Ok keep \<Rightarrow>
          pageEntries visibleOnly off es
            (if keep then entries @ [e\<lparr>PageOffset := off\<rparr>] else entries))"

function ReadTuplesFrom :: "'v externals \<Rightarrow> byte list \<Rightarrow> bool \<Rightarrow> nat \<Rightarrow> TupleEntry list
                              \<Rightarrow> TupleEntry list res" where
  "ReadTuplesFrom ext data visibleOnly off entries =
     (if off + PageSize \<le> length data then
        (case pageEntries visibleOnly off
                (ParsePage ext (subslice data off (off + PageSize))) entries of
           Panic p \<Rightarrow> Panic p
         | Err x \<Rightarrow> Err x
         | Ok entries' \<Rightarrow> ReadTuplesFrom ext data visibleOnly (off + PageSize) entries')
      else Ok entries)"
  by pat_completeness auto
termination
  by (relation "measure (\<lambda>(ext, data, visibleOnly, off, entries). length data - off)")
     (auto simp: PageSize_def)

declare ReadTuplesFrom.simps [simp del]

definition ReadTuples :: "'v externals \<Rightarrow> byte list \<Rightarrow> bool \<Rightarrow> TupleEntry list res" where
  "ReadTuples ext data visibleOnly = ReadTuplesFrom ext data visibleOnly 0 []"

definition alignFromChar :: "byte \<Rightarrow> nat" where
  "alignFromChar c =
     (if c = 0x63 then 1
      else if c = 0x73 then 2
      else if c = 0x69 then 4
      else if c = 0x64 then 8
      else 0)"

definition typeAlign :: "'v externals \<Rightarrow> int \<Rightarrow> int \<Rightarrow> nat" where
  "typeAlign ext typID len =
     (if typID \<in> set (OidsAlign8 ext) then 8
      else if typID \<in> set (OidsAlign4 ext) then 4
      else if typID \<in> set (OidsAlign2 ext) then 2
      else if typID \<in> set (OidsAlign1 ext) then 1
      else if len = - 1 then 4
      else if 8 \<le> len then 8
      else if 4 \<le> len then 4
      else if 2 \<le> len then 2
      else 1)"

definition isShortVarlena :: "byte list \<Rightarrow> bool" where
  "isShortVarlena data =
     (case data of
        [] \<Rightarrow> False
      | first # rest \<Rightarrow> first AND 1 = 1 \<and> first \<noteq> 1)"

text \<open>
  The C-string branch of \<open>readValue\<close>: the bytes before the first zero byte and the
  count consumed, \<open>i + 1\<close> with the terminator or the whole rest without one.
\<close>

fun cstring :: "byte list \<Rightarrow> byte list \<times> nat" where
  "cstring [] = ([], 0)"
| "cstring (b # bs) =
     (if b = 0 then ([], 1) else (b # fst (cstring bs), Suc (snd (cstring bs))))"

definition readValue :: "'v externals \<Rightarrow> byte list \<Rightarrow> nat \<Rightarrow> int \<Rightarrow> int \<Rightarrow> 'v val \<times> nat" where
  "readValue ext data offset typID len =
     (if length data \<le> offset then (Nil, 0)
      else
        let remaining = drop offset data in
        if 0 < len then
          (if int (length remaining) < len then (Nil, 0)
           else (Decoded (DecodeType ext (take (nat len) remaining) typID), nat len))
        else if len = - 1 then
          (case ReadVarlena ext remaining of
             (None, consumed) \<Rightarrow> (Nil, max consumed 1)
           | (Some v, consumed) \<Rightarrow> (Decoded (DecodeType ext v typID), consumed))
        else (Str (fst (cstring remaining)), snd (cstring remaining)))"

text \<open>
  What \<open>DecodeTuple\<close> prints per column when \<open>Debug\<close> is set: the column, the offset
  before and after alignment, the alignment used, whether the column was null, and
  the bytes consumed. The model keeps these lines as a list of records next to the
  row, so that the offset at which each column is decoded can be named.
\<close>

record DecodeStep =
  StepName :: string
  StepNum :: int
  StepPrevOffset :: nat
  StepOffset :: nat
  StepAlign :: nat
  StepNull :: bool
  StepConsumed :: nat

text \<open>
  The loop \<open>for idx, col := range columns\<close> of \<open>DecodeTuple\<close>, with the loop state
  \<open>offset\<close> and \<open>result\<close>.
\<close>

fun decodeColumns :: "'v externals \<Rightarrow> HeapTupleData \<Rightarrow> nat \<Rightarrow> Column list \<Rightarrow> nat \<Rightarrow> 'v row
                        \<Rightarrow> DecodeStep list \<Rightarrow> 'v row \<times> DecodeStep list" where
  "decodeColumns ext tuple idx [] offset result steps = (result, steps)"
| "decodeColumns ext tuple idx (col # cols) offset result steps =
     (let num = (if Num col = 0 then int idx + 1 else Num col);
          colAlign0 = alignFromChar (Align col);
          colAlign1 = (if colAlign0 = 0 then typeAlign ext (TypID col) (Len col) else colAlign0);
          colAlign = (if Len col = - 1 \<and> offset < length (Data tuple)
                         \<and> isShortVarlena (drop offset (Data tuple))
                      then 1 else colAlign1);
          prevOffset = offset;
          offset1 = align offset colAlign
      in if IsNull ext tuple num then
           decodeColumns ext tuple (idx + 1) cols offset1 (result(Name col \<mapsto> Nil))
             (steps @ [\<lparr>StepName = Name col, StepNum = num, StepPrevOffset = prevOffset,
                         StepOffset = offset1, StepAlign = colAlign, StepNull = True,
                         StepConsumed = 0\<rparr>])
         else
           (case readValue ext (Data tuple) offset1 (TypID col) (Len col) of
              (v, consumed) \<Rightarrow>
                decodeColumns ext tuple (idx + 1) cols (offset1 + consumed)
                  (result(Name col \<mapsto> v))
                  (steps @ [\<lparr>StepName = Name col, StepNum = num, StepPrevOffset = prevOffset,
                              StepOffset = offset1, StepAlign = colAlign, StepNull = False,
                              StepConsumed = consumed\<rparr>])))"

text \<open>\<open>DecodeTuple\<close> returns a map; \<open>None\<close> is the nil map.\<close>

definition DecodeTuple :: "'v externals \<Rightarrow> HeapTupleData option \<Rightarrow> Column list \<Rightarrow> 'v row option" where
  "DecodeTuple ext tuple columns =
     (case tuple of
        None \<Rightarrow> None
      | Some t \<Rightarrow>
          if length (Data t) = 0 then None
          else Some (fst (decodeColumns ext t 0 columns 0 Map.empty [])))"


text \<open>The loop of \<open>ReadRows\<close> over the tuples read.\<close>

fun decodeRows :: "'v externals \<Rightarrow> Column list \<Rightarrow> TupleEntry list \<Rightarrow> 'v row list \<Rightarrow> 'v row list" where
  "decodeRows ext columns [] rows = rows"
| "decodeRows ext columns (t # ts) rows =
     decodeRows ext columns ts
       (case DecodeTuple ext (Tuple t) columns of
          None \<Rightarrow> rows
        | Some row \<Rightarrow> rows @ [row])"

definition ReadRows :: "'v externals \<Rightarrow> byte list \<Rightarrow> Column list \<Rightarrow> bool \<Rightarrow> 'v row list res" where
  "ReadRows ext data columns visibleOnly =
     (case ReadTuples ext data visibleOnly of
        Panic p \<Rightarrow> Panic p
      | Err x \<Rightarrow> Err x
      | Ok entries \<Rightarrow> Ok (decodeRows ext columns entries []))"

text \<open>The loop of \<open>ReadRowsWithDeleted\<close>, with the two result lists as its state.\<close>

fun splitRows :: "'v externals \<Rightarrow> Column list \<Rightarrow> TupleEntry list \<Rightarrow> 'v row list \<Rightarrow> 'v row list
                    \<Rightarrow> 'v row list \<times> 'v row list" where
  "splitRows ext columns [] visible deleted = (visible, deleted)"
| "splitRows ext columns (entry # es) visible deleted =
     (case Tuple entry of
        None \<Rightarrow> splitRows ext columns es visible deleted
      | Some tuple \<Rightarrow>
          (case DecodeTuple ext (Some tuple) columns of
             None \<Rightarrow> splitRows ext columns es visible deleted
           | Some row \<Rightarrow>
               if IsVisible tuple then splitRows ext columns es (visible @ [row]) deleted
               else if XmaxCommitted (Header tuple) \<and> \<not> XmaxInvalid (Header tuple)
                    then splitRows ext columns es visible (deleted @ [row])
                    else splitRows ext columns es visible deleted))"

definition ReadRowsWithDeleted :: "'v externals \<Rightarrow> byte list \<Rightarrow> Column list
                                   \<Rightarrow> ('v row list \<times> 'v row list) res" where
  "ReadRowsWithDeleted ext data columns =
     (case ReadTuples ext data False of
        Panic p \<Rightarrow> Panic p
      | Err x \<Rightarrow> Err x
      | Ok entries \<Rightarrow> Ok (splitRows ext columns entries [] []))"

text \<open>
  A stand-in for the parameters, for concrete evaluation: one page yields one tuple
  whose payload is the page's first four bytes, \<open>xmin\<close> committed and \<open>xmax\<close> invalid; no
  column is null; a varlena is its first byte as the total length; values decode to their bytes; no type
  identifier has a listed alignment; one database \<open>16384\<close> "testdb" with one ordinary
  table \<open>users\<close> (OID and filenode \<open>16385\<close>) of one four-byte column \<open>id\<close>.
\<close>

definition ext0 :: "byte list externals" where
  "ext0 =
     \<lparr>ParsePage = (\<lambda>page. [\<lparr>PageOffset = 0, ItemOffset = 0,
                 Tuple = Some \<lparr>Header = \<lparr>XminCommitted = True, XmaxCommitted = False,
                                           XmaxInvalid = True\<rparr>,
                               Bitmap = None, Data = take 4 page\<rparr>\<rparr>]),
      IsNull = (\<lambda>tuple num. False),
      ReadVarlena = (\<lambda>data. (Some (take (unat (hd data)) data), unat (hd data))),
      DecodeType = (\<lambda>data typID. data),
      OidsAlign8 = [], OidsAlign4 = [], OidsAlign2 = [], OidsAlign1 = [],
      ParsePGDatabase = (\<lambda>data. [\<lparr>DbInfoOID = 16384, DbInfoName = ''testdb''\<rparr>]),
      ParsePGClass = (\<lambda>data. [(16385, \<lparr>TblOID = 16385, TblName = ''users'',
                                          TblFilenode = 16385, TblKind = ''r''\<rparr>)]),
      ParsePGAttribute = (\<lambda>data version oid.
          if oid = 16385 then [\<lparr>AttrName = ''id'', AttrTypID = 23, AttrLen = 4, AttrNum = 1\<rparr>]
          else []),
      TypeName = (\<lambda>typID. ''int4''),
      ToLower = (\<lambda>s. s)\<rparr>"



text \<open>
  The decodable tuples of a list of entries, in order: the entries that carry a tuple
  for which \<open>DecodeTuple\<close> returns a row, each with its row. This is the population
  that the visibility predicates select from.
\<close>

definition decodable :: "'v externals \<Rightarrow> Column list \<Rightarrow> TupleEntry list
                         \<Rightarrow> (HeapTupleData \<times> 'v row) list" where
  "decodable ext columns entries =
     List.map_filter
       (\<lambda>e. case Tuple e of
              None \<Rightarrow> None
            | Some t \<Rightarrow>
                (case DecodeTuple ext (Some t) columns of
                   None \<Rightarrow> None
                 | Some row \<Rightarrow> Some (t, row)))
       entries"

subsection \<open>Dump orchestrator\<close>

text \<open>
  The file system is the function \<open>readFile\<close> from a path to its bytes or an error
  (\<open>os.ReadFile\<close>); a path is the list of the components that \<open>filepath.Join\<close>
  joins. \<open>opts = None\<close> is the nil options pointer.
\<close>

record Options =
  DatabaseFilter :: string
  TableFilter :: string
  ListOnly :: bool
  SkipSystemTables :: bool
  PostgresVersion :: int

record ColumnInfo =
  ColName :: string
  ColType :: string
  ColTypID :: int

record 'v TableDump =
  DumpOID :: "32 word"
  DumpName :: string
  DumpFilenode :: "32 word"
  DumpKind :: string
  Columns :: "ColumnInfo list"
  Rows :: "'v row list"
  RowCount :: nat

record 'v DatabaseDump =
  DbDumpOID :: "32 word"
  DbDumpName :: string
  Tables :: "'v TableDump list"

record 'v DumpResult =
  Databases :: "'v DatabaseDump list"

definition withDefaults :: "Options option \<Rightarrow> Options" where
  "withDefaults opts =
     (case opts of
        None \<Rightarrow> \<lparr>DatabaseFilter = [], TableFilter = [], ListOnly = False,
                  SkipSystemTables = True, PostgresVersion = 0\<rparr>
      | Some given \<Rightarrow> given)"

text \<open>\<open>dumpTableFromReader\<close> returns a pointer to the table dump; \<open>None\<close> would be nil.\<close>

definition dumpTableFromReader :: "'v externals \<Rightarrow> 32 word \<Rightarrow> TableInfo \<Rightarrow> (32 word \<Rightarrow> AttrInfo list)
      \<Rightarrow> (32 word \<Rightarrow> error + byte list) \<Rightarrow> Options \<Rightarrow> 'v TableDump option res" where
  "dumpTableFromReader ext filenode tableInfo attributes tableReader opts =
     (let attrs = attributes (TblOID tableInfo);
          result = \<lparr>DumpOID = TblOID tableInfo, DumpName = TblName tableInfo,
                     DumpFilenode = filenode, DumpKind = TblKind tableInfo,
                     Columns = map (\<lambda>attr. \<lparr>ColName = AttrName attr,
                                             ColType = TypeName ext (AttrTypID attr),
                                             ColTypID = AttrTypID attr\<rparr>) attrs,
                     Rows = [], RowCount = 0\<rparr>
      in if ListOnly opts then Ok (Some result)
         else
           (case tableReader filenode of
              Inl err \<Rightarrow> Ok (Some result)
            | Inr tableData \<Rightarrow>
                let columns = map (\<lambda>attr. \<lparr>Name = AttrName attr, TypID = AttrTypID attr,
                                             Len = AttrLen attr, Num = AttrNum attr,
                                             Align = 0\<rparr>) attrs
                in (case ReadRows ext tableData columns True of
                      Panic p \<Rightarrow> Panic p
                    | Err e \<Rightarrow> Err e
                    | Ok rows \<Rightarrow> Ok (Some (result\<lparr>Rows := rows, RowCount := length rows\<rparr>)))))"

text \<open>
  The three \<open>continue\<close> tests of the table loop: only ordinary tables, no system
  tables when they are skipped, and the name filter.
\<close>

definition tableSelected :: "'v externals \<Rightarrow> Options \<Rightarrow> TableInfo \<Rightarrow> bool" where
  "tableSelected ext opts tableInfo =
     (\<not> (TblKind tableInfo \<noteq> ''r'' \<and> TblKind tableInfo \<noteq> [])
      \<and> \<not> (SkipSystemTables opts \<and> HasPrefix (TblName tableInfo) ''pg_'')
      \<and> \<not> (TableFilter opts \<noteq> []
             \<and> \<not> Contains (ToLower ext (TblName tableInfo)) (ToLower ext (TableFilter opts))))"

fun dumpTables :: "'v externals \<Rightarrow> (32 word \<Rightarrow> AttrInfo list) \<Rightarrow> (32 word \<Rightarrow> error + byte list)
      \<Rightarrow> Options \<Rightarrow> (32 word \<times> TableInfo) list \<Rightarrow> 'v TableDump list \<Rightarrow> 'v TableDump list res" where
  "dumpTables ext attributes tableReader opts [] tables = Ok tables"
| "dumpTables ext attributes tableReader opts ((filenode, tableInfo) # rest) tables =
     (if \<not> tableSelected ext opts tableInfo
      then dumpTables ext attributes tableReader opts rest tables
      else
        (case dumpTableFromReader ext filenode tableInfo attributes tableReader opts of
           Panic p \<Rightarrow> Panic p
         | Err e \<Rightarrow> Err e
         | Ok tableDump \<Rightarrow>
             dumpTables ext attributes tableReader opts rest
               (case tableDump of None \<Rightarrow> tables | Some td \<Rightarrow> tables @ [td])))"

definition DumpDatabaseFromFiles :: "'v externals \<Rightarrow> byte list \<Rightarrow> byte list
      \<Rightarrow> (32 word \<Rightarrow> error + byte list) \<Rightarrow> Options option \<Rightarrow> 'v DatabaseDump res" where
  "DumpDatabaseFromFiles ext classData attrData tableReader opts =
     (let opts' = withDefaults opts;
          tables = ParsePGClass ext classData;
          attributes = ParsePGAttribute ext attrData (PostgresVersion opts')
      in case dumpTables ext attributes tableReader opts' tables [] of
           Panic p \<Rightarrow> Panic p
         | Err e \<Rightarrow> Err e
         | Ok ts \<Rightarrow> Ok \<lparr>DbDumpOID = 0, DbDumpName = [], Tables = ts\<rparr>)"

definition dumpDatabase :: "'v externals \<Rightarrow> (string list \<Rightarrow> error + byte list) \<Rightarrow> string
      \<Rightarrow> DatabaseInfo \<Rightarrow> Options \<Rightarrow> 'v DatabaseDump option res" where
  "dumpDatabase ext readFile dataDir db opts =
     (let basePath = [dataDir, ''base'', decimal (unat (DbInfoOID db))] in
      case readFile (basePath @ [''1259'']) of
        Inl err \<Rightarrow> Ok None
      | Inr classData \<Rightarrow>
          (case readFile (basePath @ [''1249'']) of
             Inl err \<Rightarrow> Ok None
           | Inr attrData \<Rightarrow>
               let tableReader = (\<lambda>filenode. readFile (basePath @ [decimal (unat filenode)])) in
               (case DumpDatabaseFromFiles ext classData attrData tableReader (Some opts) of
                  Panic p \<Rightarrow> Panic p
                | Err e \<Rightarrow> Err e
                | Ok result \<Rightarrow>
                    Ok (Some (result\<lparr>DbDumpOID := DbInfoOID db,
                                     DbDumpName := DbInfoName db\<rparr>)))))"

fun dumpDatabases :: "'v externals \<Rightarrow> (string list \<Rightarrow> error + byte list) \<Rightarrow> string \<Rightarrow> Options
      \<Rightarrow> DatabaseInfo list \<Rightarrow> 'v DatabaseDump list \<Rightarrow> 'v DatabaseDump list res" where
  "dumpDatabases ext readFile dataDir opts [] dumps = Ok dumps"
| "dumpDatabases ext readFile dataDir opts (db # dbs) dumps =
     (if HasPrefix (DbInfoName db) ''template''
      then dumpDatabases ext readFile dataDir opts dbs dumps
      else if DatabaseFilter opts \<noteq> [] \<and> DbInfoName db \<noteq> DatabaseFilter opts
      then dumpDatabases ext readFile dataDir opts dbs dumps
      else
        (case dumpDatabase ext readFile dataDir db opts of
           Panic p \<Rightarrow> Panic p
         | Err e \<Rightarrow> Err e
         | Ok dbDump \<Rightarrow>
             dumpDatabases ext readFile dataDir opts dbs
               (case dbDump of None \<Rightarrow> dumps | Some dd \<Rightarrow> dumps @ [dd])))"

text \<open>\<open>DumpDataDir\<close> returns \<open>(*DumpResult, error)\<close>: \<open>Err\<close> is the returned error.\<close>

definition DumpDataDir :: "'v externals \<Rightarrow> (string list \<Rightarrow> error + byte list) \<Rightarrow> string
      \<Rightarrow> Options option \<Rightarrow> 'v DumpResult res" where
  "DumpDataDir ext readFile dataDir opts =
     (let opts' = withDefaults opts in
      case readFile [dataDir, ''global'', ''1262''] of
        Inl err \<Rightarrow> Err err
      | Inr dbData \<Rightarrow>
          (case dumpDatabases ext readFile dataDir opts' (ParsePGDatabase ext dbData) [] of
             Panic p \<Rightarrow> Panic p
           | Err e \<Rightarrow> Err e
           | Ok dumps \<Rightarrow> Ok \<lparr>Databases = dumps\<rparr>))"

text \<open>
  A cluster directory \<open>/data\<close> that holds the three catalog files and nothing else:
  the heap file \<open>base/16384/16385\<close> of the table of \<open>ext0\<close> is missing.
\<close>

definition fs_no_heap :: "string list \<Rightarrow> error + byte list" where
  "fs_no_heap path =
     (if path = [''/data'', ''global'', ''1262''] then Inr []
      else if path = [''/data'', ''base'', ''16384'', ''1259''] then Inr []
      else if path = [''/data'', ''base'', ''16384'', ''1249''] then Inr []
      else Inl (NoSuchFile path))"

section \<open>Verified properties\<close>

subsection \<open>Reassembly of large values\<close>











subsection \<open>Tuple decoding: empty payload\<close>

text \<open>
  A tuple with an empty payload, decoded against the empty schema: the result is the
  nil map, not an empty row.
\<close>

theorem DecodeTuple_empty_payload_counterexample:
  "DecodeTuple ext0 (Some \<lparr>Header = \<lparr>XminCommitted = True, XmaxCommitted = False,
                                         XmaxInvalid = True\<rparr>,
                             Bitmap = None, Data = []\<rparr>) [] = None
   \<and> (None :: byte list row option) \<noteq> Some Map.empty"
  by (simp add: DecodeTuple_def)

text \<open>
  C2 (amended). For every tuple whose payload is empty, decoding the tuple against any
  column schema returns nil (no row at all, not an empty row), and the row reader
  leaves such a tuple out of its result.
\<close>

theorem DecodeTuple_empty_payload:
  assumes "Data t = []"
  shows "DecodeTuple ext (Some t) columns = None
         \<and> decodeRows ext columns [\<lparr>PageOffset = off, ItemOffset = item, Tuple = Some t\<rparr>] rows = rows"
  using assms by (simp add: DecodeTuple_def)

text \<open>An empty payload against a one-column schema.\<close>

theorem DecodeTuple_empty_payload_witness:
  "Data \<lparr>Header = \<lparr>XminCommitted = True, XmaxCommitted = False, XmaxInvalid = True\<rparr>,
          Bitmap = None, Data = []\<rparr> = []
   \<and> DecodeTuple ext0 (Some \<lparr>Header = \<lparr>XminCommitted = True, XmaxCommitted = False,
                                         XmaxInvalid = True\<rparr>,
                             Bitmap = None, Data = []\<rparr>)
         [\<lparr>Name = ''id'', TypID = 23, Len = 4, Num = 1, Align = 0x69\<rparr>] = None"
proof -
  have h: "Data \<lparr>Header = \<lparr>XminCommitted = True, XmaxCommitted = False, XmaxInvalid = True\<rparr>,
          Bitmap = None, Data = []\<rparr> = []" by simp
  from DecodeTuple_empty_payload[OF h, of ext0 "[\<lparr>Name = ''id'', TypID = 23, Len = 4, Num = 1, Align = 0x69\<rparr>]" 0 0 "[]"] h
  show ?thesis by simp
qed

subsection \<open>Dump orchestrator: missing files\<close>

lemma decimal_16384: "decimal 16384 = ''16384''"
  by (simp add: decimal.simps decDigit_def)

lemma decimal_16385: "decimal 16385 = ''16385''"
  by (simp add: decimal.simps decDigit_def)

lemma ext0_catalogs:
  "ParsePGDatabase ext0 = (\<lambda>data. [\<lparr>DbInfoOID = 16384, DbInfoName = ''testdb''\<rparr>])"
  "ParsePGClass ext0 = (\<lambda>data. [(16385, \<lparr>TblOID = 16385, TblName = ''users'',
                                          TblFilenode = 16385, TblKind = ''r''\<rparr>)])"
  "ParsePGAttribute ext0 = (\<lambda>data version oid.
          if oid = 16385 then [\<lparr>AttrName = ''id'', AttrTypID = 23, AttrLen = 4, AttrNum = 1\<rparr>]
          else [])"
  "TypeName ext0 = (\<lambda>typID. ''int4'')"
  "ToLower ext0 = (\<lambda>s. s)"
  by (simp_all add: ext0_def)

lemma fs_no_heap_files:
  "fs_no_heap [''/data'', ''global'', ''1262''] = Inr []"
  "fs_no_heap [''/data'', ''base'', ''16384'', ''1259''] = Inr []"
  "fs_no_heap [''/data'', ''base'', ''16384'', ''1249''] = Inr []"
  "fs_no_heap [''/data'', ''base'', ''16384'', ''16385'']
     = Inl (NoSuchFile [''/data'', ''base'', ''16384'', ''16385''])"
  by (simp_all add: fs_no_heap_def)

lemma dump_no_heap:
  "DumpDataDir ext0 fs_no_heap ''/data'' None =
     Ok \<lparr>Databases =
          [\<lparr>DbDumpOID = 16384, DbDumpName = ''testdb'',
            Tables = [\<lparr>DumpOID = 16385, DumpName = ''users'', DumpFilenode = 16385,
                       DumpKind = ''r'',
                       Columns = [\<lparr>ColName = ''id'', ColType = ''int4'', ColTypID = 23\<rparr>],
                       Rows = [], RowCount = 0\<rparr>]\<rparr>]\<rparr>"
proof -
  have t: "dumpTableFromReader ext0 16385
             \<lparr>TblOID = 16385, TblName = ''users'', TblFilenode = 16385, TblKind = ''r''\<rparr>
             (ParsePGAttribute ext0 [] 0)
             (\<lambda>filenode. fs_no_heap ([''/data'', ''base'', ''16384''] @ [decimal (unat filenode)]))
             (withDefaults None)
           = Ok (Some \<lparr>DumpOID = 16385, DumpName = ''users'', DumpFilenode = 16385,
                       DumpKind = ''r'',
                       Columns = [\<lparr>ColName = ''id'', ColType = ''int4'', ColTypID = 23\<rparr>],
                       Rows = [], RowCount = 0\<rparr>)"
    by (simp add: dumpTableFromReader_def ext0_catalogs withDefaults_def fs_no_heap_files
          decimal_16385 Let_def)
  have s: "tableSelected ext0 (withDefaults None)
             \<lparr>TblOID = 16385, TblName = ''users'', TblFilenode = 16385, TblKind = ''r''\<rparr>"
    by (simp add: tableSelected_def withDefaults_def)
  have d: "DumpDatabaseFromFiles ext0 [] []
             (\<lambda>filenode. fs_no_heap ([''/data'', ''base'', ''16384''] @ [decimal (unat filenode)]))
             (Some (withDefaults None))
           = Ok \<lparr>DbDumpOID = 0, DbDumpName = [],
                 Tables = [\<lparr>DumpOID = 16385, DumpName = ''users'', DumpFilenode = 16385,
                       DumpKind = ''r'',
                       Columns = [\<lparr>ColName = ''id'', ColType = ''int4'', ColTypID = 23\<rparr>],
                       Rows = [], RowCount = 0\<rparr>]\<rparr>"
    using t s
    by (simp add: DumpDatabaseFromFiles_def Let_def ext0_catalogs(2) withDefaults_def)
  have b: "dumpDatabase ext0 fs_no_heap ''/data'' \<lparr>DbInfoOID = 16384, DbInfoName = ''testdb''\<rparr>
             (withDefaults None)
           = Ok (Some \<lparr>DbDumpOID = 16384, DbDumpName = ''testdb'',
                 Tables = [\<lparr>DumpOID = 16385, DumpName = ''users'', DumpFilenode = 16385,
                       DumpKind = ''r'',
                       Columns = [\<lparr>ColName = ''id'', ColType = ''int4'', ColTypID = 23\<rparr>],
                       Rows = [], RowCount = 0\<rparr>]\<rparr>)"
    using d by (simp add: dumpDatabase_def Let_def decimal_16384 fs_no_heap_files)
  have f: "DatabaseFilter (withDefaults None) = []"
    by (simp add: withDefaults_def)
  show ?thesis
    using b
    by (simp add: DumpDataDir_def Let_def fs_no_heap_files ext0_catalogs(1) f)
qed

lemma pageEntries_no_Err: "pageEntries visibleOnly off es entries \<noteq> Err e"
  by (induction es arbitrary: entries) (auto simp: keepEntry_def split: res.splits option.splits)

lemma ReadTuplesFrom_no_Err: "ReadTuplesFrom ext data visibleOnly off entries \<noteq> Err e"
proof (induction ext data visibleOnly off entries rule: ReadTuplesFrom.induct)
  case (1 ext data visibleOnly off entries)
  show ?case
  proof (cases "off + PageSize \<le> length data")
    case False
    then show ?thesis by (subst ReadTuplesFrom.simps) simp
  next
    case True
    show ?thesis
    proof (cases "pageEntries visibleOnly off
                    (ParsePage ext (subslice data off (off + PageSize))) entries")
      case (Ok entries')
      with True "1.IH"[OF True Ok] show ?thesis
        by (subst ReadTuplesFrom.simps) simp
    next
      case (Err x)
      with pageEntries_no_Err show ?thesis by blast
    next
      case (Panic p)
      with True show ?thesis by (subst ReadTuplesFrom.simps) simp
    qed
  qed
qed

lemma ReadRows_no_Err: "ReadRows ext data columns visibleOnly \<noteq> Err e"
  using ReadTuplesFrom_no_Err[of ext data visibleOnly 0 "[]"]
  by (auto simp: ReadRows_def ReadTuples_def split: res.splits)

lemma dumpTableFromReader_no_Err:
  "dumpTableFromReader ext filenode tableInfo attributes tableReader opts \<noteq> Err e"
  using ReadRows_no_Err[of ext]
  by (auto simp: dumpTableFromReader_def Let_def split: sum.splits res.splits)

lemma dumpTables_no_Err:
  "dumpTables ext attributes tableReader opts rest tables \<noteq> Err e"
proof (induction rest arbitrary: tables)
  case Nil
  then show ?case by simp
next
  case (Cons x rest)
  obtain filenode tableInfo where x: "x = (filenode, tableInfo)" by (cases x)
  show ?case
    unfolding x using Cons.IH dumpTableFromReader_no_Err[of ext filenode tableInfo]
    by (auto split: res.splits)
qed

lemma DumpDatabaseFromFiles_no_Err:
  "DumpDatabaseFromFiles ext classData attrData tableReader opts \<noteq> Err e"
  using dumpTables_no_Err[of ext]
  by (auto simp: DumpDatabaseFromFiles_def Let_def split: res.splits)

lemma dumpDatabase_no_Err: "dumpDatabase ext readFile dataDir db opts \<noteq> Err e"
  using DumpDatabaseFromFiles_no_Err[of ext]
  by (auto simp: dumpDatabase_def Let_def split: sum.splits res.splits)

lemma dumpDatabases_no_Err: "dumpDatabases ext readFile dataDir opts dbs dumps \<noteq> Err e"
proof (induction dbs arbitrary: dumps)
  case Nil
  then show ?case by simp
next
  case (Cons db dbs)
  show ?case
    using Cons.IH dumpDatabase_no_Err[of ext readFile dataDir db opts]
    by (auto split: res.splits)
qed

lemma dumpTables_keeps:
  "dumpTables ext attributes tableReader opts rest tables = Ok ts \<Longrightarrow> set tables \<subseteq> set ts"
proof (induction rest arbitrary: tables)
  case Nil
  then show ?case by simp
next
  case (Cons x rest)
  obtain filenode tableInfo where x: "x = (filenode, tableInfo)" by (cases x)
  from Cons.prems show ?case
    unfolding x
    by (auto split: if_splits res.splits option.splits dest!: Cons.IH)
qed

lemma dumpTables_member:
  assumes "(filenode, tableInfo) \<in> set rest"
    and "tableSelected ext opts tableInfo"
    and "dumpTableFromReader ext filenode tableInfo attributes tableReader opts = Ok (Some td)"
    and "dumpTables ext attributes tableReader opts rest tables = Ok ts"
  shows "td \<in> set ts"
  using assms
proof (induction rest arbitrary: tables)
  case Nil
  then show ?case by simp
next
  case (Cons x rest)
  obtain fn ti where x: "x = (fn, ti)" by (cases x)
  show ?case
  proof (cases "(filenode, tableInfo) = (fn, ti)")
    case True
    with Cons.prems(2,3,4) have "dumpTables ext attributes tableReader opts rest (tables @ [td]) = Ok ts"
      unfolding x by simp
    from dumpTables_keeps[OF this] show ?thesis by simp
  next
    case False
    with Cons.prems(1) have mem: "(filenode, tableInfo) \<in> set rest" unfolding x by auto
    from Cons.prems(4) obtain tables' where
      "dumpTables ext attributes tableReader opts rest tables' = Ok ts"
      unfolding x by (auto split: if_splits res.splits)
    from Cons.IH[OF mem Cons.prems(2,3) this] show ?thesis .
  qed
qed

text \<open>
  A cluster whose catalogs are present and whose one table has no heap file: the read
  of \<open>base/16384/16385\<close> fails, and the table \<open>users\<close> still appears in the table list of
  its database, with its column and no rows.
\<close>

theorem DumpDataDir_lists_unreadable_table_counterexample:
  "fs_no_heap [''/data'', ''base'', ''16384'', ''16385'']
     = Inl (NoSuchFile [''/data'', ''base'', ''16384'', ''16385''])
   \<and> DumpDataDir ext0 fs_no_heap ''/data'' None =
       Ok \<lparr>Databases =
            [\<lparr>DbDumpOID = 16384, DbDumpName = ''testdb'',
              Tables = [\<lparr>DumpOID = 16385, DumpName = ''users'', DumpFilenode = 16385,
                         DumpKind = ''r'',
                         Columns = [\<lparr>ColName = ''id'', ColType = ''int4'', ColTypID = 23\<rparr>],
                         Rows = [], RowCount = 0\<rparr>]\<rparr>]\<rparr>"
  using dump_no_heap by (simp add: fs_no_heap_files)

text \<open>
  C3 (amended). When \<open>global/1262\<close> is absent, the dump orchestrator returns that error
  to the caller; when it is present, no error is returned whatever else is missing.
  When \<open>base/<db-oid>/1259\<close> or \<open>base/<db-oid>/1249\<close> cannot be read, the error is
  absorbed and the database yields no dump. When the heap file of a selected relation
  cannot be read, the error is absorbed and the relation appears in the database's
  table list with its columns, no rows and a row count of 0.
\<close>

theorem dump_missing_file_policy:
  "(readFile [dataDir, ''global'', ''1262''] = Inl e \<longrightarrow>
      DumpDataDir ext readFile dataDir opts = Err e)
   \<and> (readFile [dataDir, ''global'', ''1262''] = Inr dbData \<longrightarrow>
      DumpDataDir ext readFile dataDir opts \<noteq> Err e)
   \<and> (readFile [dataDir, ''base'', decimal (unat (DbInfoOID db)), ''1259''] = Inl e
        \<or> readFile [dataDir, ''base'', decimal (unat (DbInfoOID db)), ''1249''] = Inl e \<longrightarrow>
      dumpDatabase ext readFile dataDir db dbOpts = Ok None)
   \<and> (tableReader filenode = Inl e
        \<and> (filenode, tableInfo) \<in> set (ParsePGClass ext classData)
        \<and> tableSelected ext (withDefaults opts) tableInfo
        \<and> \<not> ListOnly (withDefaults opts)
        \<and> DumpDatabaseFromFiles ext classData attrData tableReader opts = Ok dump \<longrightarrow>
      \<lparr>DumpOID = TblOID tableInfo, DumpName = TblName tableInfo, DumpFilenode = filenode,
        DumpKind = TblKind tableInfo,
        Columns = map (\<lambda>attr. \<lparr>ColName = AttrName attr,
                                ColType = TypeName ext (AttrTypID attr),
                                ColTypID = AttrTypID attr\<rparr>)
                    (ParsePGAttribute ext attrData (PostgresVersion (withDefaults opts))
                       (TblOID tableInfo)),
        Rows = [], RowCount = 0\<rparr> \<in> set (Tables dump))"
proof (intro conjI impI)
  assume "readFile [dataDir, ''global'', ''1262''] = Inl e"
  then show "DumpDataDir ext readFile dataDir opts = Err e"
    by (simp add: DumpDataDir_def Let_def)
next
  assume "readFile [dataDir, ''global'', ''1262''] = Inr dbData"
  then show "DumpDataDir ext readFile dataDir opts \<noteq> Err e"
    using dumpDatabases_no_Err[of ext readFile dataDir "withDefaults opts"
            "ParsePGDatabase ext dbData" "[]" e]
    by (auto simp: DumpDataDir_def Let_def split: res.splits)
next
  assume "readFile [dataDir, ''base'', decimal (unat (DbInfoOID db)), ''1259''] = Inl e
        \<or> readFile [dataDir, ''base'', decimal (unat (DbInfoOID db)), ''1249''] = Inl e"
  then show "dumpDatabase ext readFile dataDir db dbOpts = Ok None"
    by (auto simp: dumpDatabase_def Let_def split: sum.splits)
next
  let ?attrs = "ParsePGAttribute ext attrData (PostgresVersion (withDefaults opts))"
  let ?td = "\<lparr>DumpOID = TblOID tableInfo, DumpName = TblName tableInfo, DumpFilenode = filenode,
        DumpKind = TblKind tableInfo,
        Columns = map (\<lambda>attr. \<lparr>ColName = AttrName attr,
                                ColType = TypeName ext (AttrTypID attr),
                                ColTypID = AttrTypID attr\<rparr>) (?attrs (TblOID tableInfo)),
        Rows = [], RowCount = 0\<rparr> :: 'a TableDump"
  assume a: "tableReader filenode = Inl e
        \<and> (filenode, tableInfo) \<in> set (ParsePGClass ext classData)
        \<and> tableSelected ext (withDefaults opts) tableInfo
        \<and> \<not> ListOnly (withDefaults opts)
        \<and> DumpDatabaseFromFiles ext classData attrData tableReader opts = Ok dump"
  then have t: "dumpTableFromReader ext filenode tableInfo ?attrs tableReader (withDefaults opts)
                = Ok (Some ?td)"
    by (simp add: dumpTableFromReader_def Let_def)
  from a have "dumpTables ext ?attrs tableReader (withDefaults opts) (ParsePGClass ext classData) []
                = Ok (Tables dump)"
    by (auto simp: DumpDatabaseFromFiles_def Let_def split: res.splits)
  with a t show "?td \<in> set (Tables dump)"
    using dumpTables_member by blast
qed

lemma dump_db_no_heap:
  "DumpDatabaseFromFiles ext0 [] []
     (\<lambda>filenode. fs_no_heap [''/data'', ''base'', ''16384'', decimal (unat filenode)]) None
   = Ok \<lparr>DbDumpOID = 0, DbDumpName = [],
         Tables = [\<lparr>DumpOID = 16385, DumpName = ''users'', DumpFilenode = 16385,
                    DumpKind = ''r'',
                    Columns = [\<lparr>ColName = ''id'', ColType = ''int4'', ColTypID = 23\<rparr>],
                    Rows = [], RowCount = 0\<rparr>]\<rparr>"
proof -
  have t: "dumpTableFromReader ext0 16385
             \<lparr>TblOID = 16385, TblName = ''users'', TblFilenode = 16385, TblKind = ''r''\<rparr>
             (ParsePGAttribute ext0 [] 0)
             (\<lambda>filenode. fs_no_heap [''/data'', ''base'', ''16384'', decimal (unat filenode)])
             (withDefaults None)
           = Ok (Some \<lparr>DumpOID = 16385, DumpName = ''users'', DumpFilenode = 16385,
                       DumpKind = ''r'',
                       Columns = [\<lparr>ColName = ''id'', ColType = ''int4'', ColTypID = 23\<rparr>],
                       Rows = [], RowCount = 0\<rparr>)"
    by (simp add: dumpTableFromReader_def ext0_catalogs withDefaults_def fs_no_heap_files
          decimal_16385 Let_def)
  have s: "tableSelected ext0 (withDefaults None)
             \<lparr>TblOID = 16385, TblName = ''users'', TblFilenode = 16385, TblKind = ''r''\<rparr>"
    by (simp add: tableSelected_def withDefaults_def)
  have v: "PostgresVersion (withDefaults None) = 0"
    by (simp add: withDefaults_def)
  show ?thesis
    using t s
    by (simp add: DumpDatabaseFromFiles_def Let_def ext0_catalogs(2) v)
qed

text \<open>
  An empty cluster directory for the first and third part, the cluster without the
  heap file for the second and fourth.
\<close>

theorem dump_missing_file_policy_witness:
  "DumpDataDir ext0 (\<lambda>path. Inl (NoSuchFile path)) ''/data'' None
     = Err (NoSuchFile [''/data'', ''global'', ''1262''])
   \<and> dumpDatabase ext0 (\<lambda>path. Inl (NoSuchFile path)) ''/data''
        \<lparr>DbInfoOID = 16384, DbInfoName = ''testdb''\<rparr> (withDefaults None) = Ok None
   \<and> DumpDataDir ext0 fs_no_heap ''/data'' None \<noteq> Err (NoSuchFile [''/data'', ''base'', ''16384'', ''16385''])
   \<and> \<lparr>DumpOID = 16385, DumpName = ''users'', DumpFilenode = 16385, DumpKind = ''r'',
        Columns = [\<lparr>ColName = ''id'', ColType = ''int4'', ColTypID = 23\<rparr>],
        Rows = [], RowCount = 0\<rparr>
       \<in> set (Tables \<lparr>DbDumpOID = 0, DbDumpName = [],
               Tables = [\<lparr>DumpOID = 16385, DumpName = ''users'', DumpFilenode = 16385,
                    DumpKind = ''r'',
                    Columns = [\<lparr>ColName = ''id'', ColType = ''int4'', ColTypID = 23\<rparr>],
                    Rows = ([] :: byte list row list), RowCount = 0\<rparr>]\<rparr>)"
proof -
  let ?fs = "\<lambda>path. Inl (NoSuchFile path) :: error + byte list"
  let ?reader = "\<lambda>filenode :: 32 word. fs_no_heap [''/data'', ''base'', ''16384'', decimal (unat filenode)]"
  let ?ti = "\<lparr>TblOID = 16385, TblName = ''users'', TblFilenode = 16385, TblKind = ''r''\<rparr>"
  let ?dump = "\<lparr>DbDumpOID = 0, DbDumpName = [],
               Tables = [\<lparr>DumpOID = 16385, DumpName = ''users'', DumpFilenode = 16385,
                    DumpKind = ''r'',
                    Columns = [\<lparr>ColName = ''id'', ColType = ''int4'', ColTypID = 23\<rparr>],
                    Rows = ([] :: byte list row list), RowCount = 0\<rparr>]\<rparr>"
  have g: "?fs [''/data'', ''global'', ''1262''] = Inl (NoSuchFile [''/data'', ''global'', ''1262''])"
    by simp
  have c: "?fs [''/data'', ''base'', decimal (unat (DbInfoOID \<lparr>DbInfoOID = 16384, DbInfoName = ''testdb''\<rparr>)), ''1259'']
       = Inl (NoSuchFile [''/data'', ''base'', ''16384'', ''1259''])"
    by (simp add: decimal_16384)
  from dump_missing_file_policy[of ?fs "''/data''" "NoSuchFile [''/data'', ''global'', ''1262'']"
          ext0 None] g
  have 1: "DumpDataDir ext0 ?fs ''/data'' None = Err (NoSuchFile [''/data'', ''global'', ''1262''])"
    by blast
  from dump_missing_file_policy[of ?fs "''/data''" "NoSuchFile [''/data'', ''base'', ''16384'', ''1259'']"
          ext0 None _ "\<lparr>DbInfoOID = 16384, DbInfoName = ''testdb''\<rparr>" "withDefaults None"] c
  have 2: "dumpDatabase ext0 ?fs ''/data''
        \<lparr>DbInfoOID = 16384, DbInfoName = ''testdb''\<rparr> (withDefaults None) = Ok None"
    by blast
  have r: "?reader 16385 = Inl (NoSuchFile [''/data'', ''base'', ''16384'', ''16385''])"
    by (simp add: decimal_16385 fs_no_heap_files)
  have m: "(16385, ?ti) \<in> set (ParsePGClass ext0 [])"
    by (simp add: ext0_catalogs)
  have sel: "tableSelected ext0 (withDefaults None) ?ti" "\<not> ListOnly (withDefaults None)"
    by (simp_all add: tableSelected_def withDefaults_def)
  have attrs: "map (\<lambda>attr. \<lparr>ColName = AttrName attr, ColType = TypeName ext0 (AttrTypID attr),
                                ColTypID = AttrTypID attr\<rparr>)
                 (ParsePGAttribute ext0 [] (PostgresVersion (withDefaults None)) (TblOID ?ti))
               = [\<lparr>ColName = ''id'', ColType = ''int4'', ColTypID = 23\<rparr>]"
    by (simp add: ext0_catalogs)
  from dump_missing_file_policy[of fs_no_heap "''/data''"
          "NoSuchFile [''/data'', ''base'', ''16384'', ''16385'']" ext0 None "[]" _ _
          ?reader 16385 ?ti "[]" "[]" ?dump]
  have 3: "DumpDataDir ext0 fs_no_heap ''/data'' None
             \<noteq> Err (NoSuchFile [''/data'', ''base'', ''16384'', ''16385''])"
    and 4: "\<lparr>DumpOID = TblOID ?ti, DumpName = TblName ?ti, DumpFilenode = 16385,
        DumpKind = TblKind ?ti,
        Columns = map (\<lambda>attr. \<lparr>ColName = AttrName attr,
                                ColType = TypeName ext0 (AttrTypID attr),
                                ColTypID = AttrTypID attr\<rparr>)
                    (ParsePGAttribute ext0 [] (PostgresVersion (withDefaults None)) (TblOID ?ti)),
        Rows = [], RowCount = 0\<rparr> \<in> set (Tables ?dump)"
    using r m sel dump_db_no_heap fs_no_heap_files(1) by blast+
  from 4 have t4: "\<lparr>DumpOID = 16385, DumpName = ''users'', DumpFilenode = 16385, DumpKind = ''r'',
        Columns = [\<lparr>ColName = ''id'', ColType = ''int4'', ColTypID = 23\<rparr>],
        Rows = [], RowCount = 0\<rparr> \<in> set (Tables ?dump)"
    unfolding attrs by simp
  from 1 2 3 t4 show ?thesis by blast
qed

subsection \<open>Tuple decoding: alignment\<close>













subsection \<open>Visible and deleted rows\<close>

lemma pageEntries_all:
  "pageEntries False off es entries = Ok (entries @ map (\<lambda>e. e\<lparr>PageOffset := off\<rparr>) es)"
  by (induction es arbitrary: entries) (simp_all add: keepEntry_def)

lemma ReadTuplesFrom_all:
  "\<exists>entries'. ReadTuplesFrom ext data False off entries = Ok entries'"
proof (induction ext data "False" off entries rule: ReadTuplesFrom.induct)
  case (1 ext data off entries)
  show ?case
  proof (cases "off + PageSize \<le> length data")
    case True
    let ?es = "entries @ map (\<lambda>e. e\<lparr>PageOffset := off\<rparr>)
                 (ParsePage ext (subslice data off (off + PageSize)))"
    have "ReadTuplesFrom ext data False off entries
          = ReadTuplesFrom ext data False (off + PageSize) ?es"
      using True by (subst ReadTuplesFrom.simps) (simp add: pageEntries_all)
    with "1.hyps"[OF True pageEntries_all] show ?thesis by simp
  next
    case False
    then show ?thesis by (subst ReadTuplesFrom.simps) simp
  qed
qed

lemma decodable_Cons:
  "decodable ext columns (e # es) =
     (case Tuple e of
        None \<Rightarrow> decodable ext columns es
      | Some t \<Rightarrow>
          (case DecodeTuple ext (Some t) columns of
             None \<Rightarrow> decodable ext columns es
           | Some row \<Rightarrow> (t, row) # decodable ext columns es))"
  by (simp add: decodable_def map_filter_simps split: option.splits)

lemma decodable_Nil: "decodable ext columns [] = []"
  by (simp add: decodable_def map_filter_simps)

lemma splitRows_eq:
  "splitRows ext columns es visible deleted =
     (visible @ map snd (filter (\<lambda>(t, row). XminCommitted (Header t)
                                  \<and> (XmaxInvalid (Header t) \<or> \<not> XmaxCommitted (Header t)))
                           (decodable ext columns es)),
      deleted @ map snd (filter (\<lambda>(t, row). XmaxCommitted (Header t) \<and> \<not> XmaxInvalid (Header t))
                           (decodable ext columns es)))"
proof (induction es arbitrary: visible deleted)
  case Nil
  then show ?case by (simp add: decodable_Nil)
next
  case (Cons e es)
  show ?case
  proof (cases "Tuple e")
    case None
    then show ?thesis by (simp add: decodable_Cons Cons.IH)
  next
    case (Some t)
    show ?thesis
    proof (cases "DecodeTuple ext (Some t) columns")
      case None
      with Some show ?thesis by (simp add: decodable_Cons Cons.IH)
    next
      case (Some row)
      with \<open>Tuple e = Some t\<close> show ?thesis
        by (auto simp: decodable_Cons Cons.IH IsVisible_def)
    qed
  qed
qed

text \<open>
  C5. For every heap buffer and schema, \<open>read_rows_with_deleted\<close> never fails to read the
  tuples and splits the decodable ones by visibility: the visible list holds, in
  order, the rows of exactly the decodable tuples whose \<open>xmin\<close> is committed and whose
  \<open>xmax\<close> is invalid or uncommitted; the deleted list the rows of exactly those whose
  \<open>xmax\<close> is committed with the xmax-invalid bit not set. Both lists, like the rows of
  \<open>read_rows\<close> without the visibility filter, come from the same decoding of the same
  tuples and differ only in the predicate.
\<close>

theorem ReadRowsWithDeleted_partition:
  "\<exists>entries. ReadTuples ext data False = Ok entries
      \<and> ReadRowsWithDeleted ext data columns =
          Ok (map snd (filter (\<lambda>(t, row). XminCommitted (Header t)
                                  \<and> (XmaxInvalid (Header t) \<or> \<not> XmaxCommitted (Header t)))
                         (decodable ext columns entries)),
              map snd (filter (\<lambda>(t, row). XmaxCommitted (Header t) \<and> \<not> XmaxInvalid (Header t))
                         (decodable ext columns entries)))
      \<and> ReadRows ext data columns False = Ok (map snd (decodable ext columns entries))"
proof -
  from ReadTuplesFrom_all[of ext data 0 "[]"]
  obtain entries where e: "ReadTuples ext data False = Ok entries"
    by (auto simp: ReadTuples_def)
  have rows: "decodeRows ext columns es rows = rows @ map snd (decodable ext columns es)" for es rows
  proof (induction es arbitrary: rows)
    case Nil
    then show ?case by (simp add: decodable_Nil)
  next
    case (Cons x xs)
    show ?case
    proof (cases "Tuple x")
      case None
      then show ?thesis by (simp add: decodable_Cons Cons.IH DecodeTuple_def)
    next
      case (Some t)
      then show ?thesis by (simp add: decodable_Cons Cons.IH split: option.splits)
    qed
  qed
  from e show ?thesis
    by (simp add: ReadRowsWithDeleted_def ReadRows_def splitRows_eq rows)
qed

lemma ReadTuples_one_page:
  "ReadTuples ext0 (replicate 8192 7) False =
     Ok [\<lparr>PageOffset = 0, ItemOffset = 0,
          Tuple = Some \<lparr>Header = \<lparr>XminCommitted = True, XmaxCommitted = False,
                                    XmaxInvalid = True\<rparr>,
                        Bitmap = None, Data = replicate 4 7\<rparr>\<rparr>]"
proof -
  have p: "ParsePage ext0 = (\<lambda>page. [\<lparr>PageOffset = 0, ItemOffset = 0,
                 Tuple = Some \<lparr>Header = \<lparr>XminCommitted = True, XmaxCommitted = False,
                                           XmaxInvalid = True\<rparr>,
                               Bitmap = None, Data = take 4 page\<rparr>\<rparr>])"
    by (simp add: ext0_def)
  show ?thesis
    unfolding ReadTuples_def
    apply (subst ReadTuplesFrom.simps)
    apply (simp add: PageSize_def subslice_def p keepEntry_def)
    apply (subst ReadTuplesFrom.simps)
    apply (simp add: PageSize_def)
    done
qed

text \<open>One page with one visible tuple, decoded against the empty schema.\<close>

theorem ReadRowsWithDeleted_partition_witness:
  "ReadRowsWithDeleted ext0 (replicate 8192 7) [] = Ok ([Map.empty], [])"
proof -
  let ?e = "\<lparr>PageOffset = 0, ItemOffset = 0,
          Tuple = Some \<lparr>Header = \<lparr>XminCommitted = True, XmaxCommitted = False,
                                    XmaxInvalid = True\<rparr>,
                        Bitmap = None, Data = replicate 4 (7 :: byte)\<rparr>\<rparr>"
  from ReadRowsWithDeleted_partition[of ext0 "replicate 8192 7" "[]"]
  obtain entries where e: "ReadTuples ext0 (replicate 8192 7) False = Ok entries"
    and r: "ReadRowsWithDeleted ext0 (replicate 8192 7) [] =
          Ok (map snd (filter (\<lambda>(t, row). XminCommitted (Header t)
                                  \<and> (XmaxInvalid (Header t) \<or> \<not> XmaxCommitted (Header t)))
                         (decodable ext0 [] entries)),
              map snd (filter (\<lambda>(t, row). XmaxCommitted (Header t) \<and> \<not> XmaxInvalid (Header t))
                         (decodable ext0 [] entries)))"
    by blast
  from e have "entries = [?e]" by (simp add: ReadTuples_one_page)
  then have "decodable ext0 [] entries =
      [(\<lparr>Header = \<lparr>XminCommitted = True, XmaxCommitted = False, XmaxInvalid = True\<rparr>,
         Bitmap = None, Data = replicate 4 (7 :: byte)\<rparr>, Map.empty)]"
    by (simp add: decodable_Cons decodable_Nil DecodeTuple_def)
  with r show ?thesis by simp
qed

subsection \<open>OID to filenode map\<close>

lemma readMappings_numeral:
  "readMappings (numeral k) data offset ms =
     (if length data < offset + 8 then ms
      else readMappings (pred_numeral k) data (offset + 8)
             (ms @ [\<lparr>OID = Uint32 (subslice data offset (offset + 4)),
                      Filenode = Uint32 (subslice data (offset + 4) (offset + 8))\<rparr>]))"
  by (simp add: numeral_eq_Suc)

lemma replicate_4: "replicate 4 x = [x, x, x, x]"
  by (simp add: numeral_eq_Suc)

lemma relmap_example_slices:
  "length relmap_example = 512"
  "subslice relmap_example 0 4 = [0x17, 0x27, 0x59, 0x00]"
  "subslice relmap_example 4 8 = [0x02, 0x00, 0x00, 0x00]"
  "subslice relmap_example 8 12 = [0xEE, 0x04, 0x00, 0x00]"
  "subslice relmap_example 12 16 = [0xEE, 0x04, 0x00, 0x00]"
  "subslice relmap_example 16 20 = [0xEB, 0x04, 0x00, 0x00]"
  "subslice relmap_example 20 24 = [0x00, 0x40, 0x00, 0x00]"
  "subslice relmap_example 504 508 = [0, 0, 0, 0]"
  by (simp_all add: relmap_example_def subslice_def replicate_4)

lemma ParseRelMapFile_example:
  "ParseRelMapFile relmap_example =
     Inr \<lparr>Magic = 0x592717, NumMappings = 2,
          Mappings = [\<lparr>OID = 1262, Filenode = 1262\<rparr>, \<lparr>OID = 1259, Filenode = 16384\<rparr>],
          CRC = 0, IsGlobal = False, Path = []\<rparr>"
  by (simp add: ParseRelMapFile_def relmap_example_slices Uint32_def RelMapMagic_def
        RelMapMaxMappings_def Let_def readMappings_numeral)

lemma relmap_dup_slices:
  "length relmap_dup = 512"
  "subslice relmap_dup 0 4 = [0x17, 0x27, 0x59, 0x00]"
  "subslice relmap_dup 4 8 = [0x02, 0x00, 0x00, 0x00]"
  "subslice relmap_dup 8 12 = [0x01, 0x00, 0x00, 0x00]"
  "subslice relmap_dup 12 16 = [0x0A, 0x00, 0x00, 0x00]"
  "subslice relmap_dup 16 20 = [0x01, 0x00, 0x00, 0x00]"
  "subslice relmap_dup 20 24 = [0x14, 0x00, 0x00, 0x00]"
  "subslice relmap_dup 504 508 = [0, 0, 0, 0]"
  by (simp_all add: relmap_dup_def subslice_def replicate_4)

lemma readMappings_length:
  "offset + 8 * n \<le> length data \<Longrightarrow> length (readMappings n data offset ms) = length ms + n"
  by (induction n arbitrary: offset ms) auto

lemma readMappings_nth:
  "offset + 8 * n \<le> length data \<Longrightarrow> i < length ms + n \<Longrightarrow>
   readMappings n data offset ms ! i =
     (if i < length ms then ms ! i
      else \<lparr>OID = Uint32 (subslice data (offset + 8 * (i - length ms)) (offset + 8 * (i - length ms) + 4)),
            Filenode = Uint32 (subslice data (offset + 8 * (i - length ms) + 4) (offset + 8 * (i - length ms) + 8))\<rparr>)"
proof (induction n arbitrary: offset ms)
  case 0
  then show ?case by simp
next
  case (Suc n)
  from Suc.prems have le: "offset + 8 \<le> length data" by simp
  have step: "readMappings (Suc n) data offset ms =
      readMappings n data (offset + 8)
             (ms @ [\<lparr>OID = Uint32 (subslice data offset (offset + 4)),
                      Filenode = Uint32 (subslice data (offset + 4) (offset + 8))\<rparr>])"
    using le by simp
  show ?case
  proof (cases "i < length ms")
    case True
    then show ?thesis using Suc.prems Suc.IH[of "offset + 8" "ms @ [\<lparr>OID = Uint32 (subslice data offset (offset + 4)),
                      Filenode = Uint32 (subslice data (offset + 4) (offset + 8))\<rparr>]"]
      by (simp add: step nth_append)
  next
    case False
    show ?thesis
    proof (cases "i = length ms")
      case True
      then show ?thesis using Suc.prems Suc.IH[of "offset + 8" "ms @ [\<lparr>OID = Uint32 (subslice data offset (offset + 4)),
                      Filenode = Uint32 (subslice data (offset + 4) (offset + 8))\<rparr>]"]
        by (simp add: step nth_append)
    next
      case ne: False
      with False obtain k where k: "i = length ms + Suc k"
        by (metis add_Suc_right less_iff_Suc_add linorder_neqE_nat)
      then show ?thesis using Suc.prems Suc.IH[of "offset + 8" "ms @ [\<lparr>OID = Uint32 (subslice data offset (offset + 4)),
                      Filenode = Uint32 (subslice data (offset + 4) (offset + 8))\<rparr>]"]
        by (simp add: step nth_append add.assoc)
    qed
  qed
qed

lemma firstFilenode_nth:
  "i < length ms \<Longrightarrow> \<forall>j<i. OID (ms ! j) \<noteq> OID (ms ! i) \<Longrightarrow>
   firstFilenode ms (OID (ms ! i)) = Filenode (ms ! i)"
proof (induction ms arbitrary: i)
  case Nil
  then show ?case by simp
next
  case (Cons m ms)
  show ?case
  proof (cases i)
    case 0
    then show ?thesis by simp
  next
    case (Suc k)
    with Cons.prems have "OID m \<noteq> OID (ms ! k)" by fastforce
    moreover have "\<forall>j<k. OID (ms ! j) \<noteq> OID (ms ! k)"
      using Cons.prems Suc by fastforce
    ultimately show ?thesis using Cons.IH[of k] Cons.prems Suc by simp
  qed
qed

lemma firstOID_nth:
  "i < length ms \<Longrightarrow> \<forall>j<i. Filenode (ms ! j) \<noteq> Filenode (ms ! i) \<Longrightarrow>
   firstOID ms (Filenode (ms ! i)) = OID (ms ! i)"
proof (induction ms arbitrary: i)
  case Nil
  then show ?case by simp
next
  case (Cons m ms)
  show ?case
  proof (cases i)
    case 0
    then show ?thesis by simp
  next
    case (Suc k)
    with Cons.prems have "Filenode m \<noteq> Filenode (ms ! k)" by fastforce
    moreover have "\<forall>j<k. Filenode (ms ! j) \<noteq> Filenode (ms ! k)"
      using Cons.prems Suc by fastforce
    ultimately show ?thesis using Cons.IH[of k] Cons.prems Suc by simp
  qed
qed

text \<open>
  The map file \<open>relmap_dup\<close> is 512 bytes long and parses successfully into the two
  mappings \<open>(1, 10)\<close> and \<open>(1, 20)\<close>; for the second parsed mapping the lookup
  \<open>GetFilenode 1\<close> returns \<open>10\<close>, the filenode of the first, not \<open>20\<close>.
\<close>

theorem relmap_duplicate_oid_counterexample:
  "length relmap_dup = 512
   \<and> ParseRelMapFile relmap_dup =
       Inr \<lparr>Magic = 0x592717, NumMappings = 2,
            Mappings = [\<lparr>OID = 1, Filenode = 10\<rparr>, \<lparr>OID = 1, Filenode = 20\<rparr>],
            CRC = 0, IsGlobal = False, Path = []\<rparr>
   \<and> GetFilenode \<lparr>Magic = 0x592717, NumMappings = 2,
            Mappings = [\<lparr>OID = 1, Filenode = 10\<rparr>, \<lparr>OID = 1, Filenode = 20\<rparr>],
            CRC = 0, IsGlobal = False, Path = []\<rparr> 1 = 10
   \<and> (10 :: 32 word) \<noteq> 20"
  by (simp add: ParseRelMapFile_def relmap_dup_slices Uint32_def RelMapMagic_def
        RelMapMaxMappings_def Let_def readMappings_numeral GetFilenode_def)

text \<open>
  C6 (amended). For every buffer that parses successfully as an OID-filenode map file,
  the magic equals \<open>0x592717\<close>, \<open>num_mappings\<close> lies in \<open>[0, 62]\<close> and as many mappings
  are parsed, the \<open>i\<close>-th from the eight bytes at offset \<open>8 + 8 i\<close>. For each parsed
  mapping \<open>(oid, filenode)\<close>, \<open>get_filenode(oid)\<close> returns \<open>filenode\<close> provided no earlier
  mapping of the file carries the same OID, and \<open>get_oid(filenode)\<close> returns \<open>oid\<close>
  provided no earlier mapping carries the same filenode: both lookups return the first
  match.
\<close>

theorem ParseRelMapFile_lookup:
  assumes ok: "ParseRelMapFile data = Inr rm"
  shows "Magic rm = 0x592717
     \<and> 0 \<le> sint (NumMappings rm) \<and> sint (NumMappings rm) \<le> 62
     \<and> length (Mappings rm) = nat (sint (NumMappings rm))
     \<and> (\<forall>i<length (Mappings rm).
           Mappings rm ! i =
             \<lparr>OID = Uint32 (subslice data (8 + 8 * i) (8 + 8 * i + 4)),
              Filenode = Uint32 (subslice data (8 + 8 * i + 4) (8 + 8 * i + 8))\<rparr>
           \<and> ((\<forall>j<i. OID (Mappings rm ! j) \<noteq> OID (Mappings rm ! i)) \<longrightarrow>
                GetFilenode rm (OID (Mappings rm ! i)) = Filenode (Mappings rm ! i))
           \<and> ((\<forall>j<i. Filenode (Mappings rm ! j) \<noteq> Filenode (Mappings rm ! i)) \<longrightarrow>
                GetOID rm (Filenode (Mappings rm ! i)) = OID (Mappings rm ! i)))"
proof -
  let ?num = "Uint32 (subslice data 4 8)"
  from ok have len: "512 \<le> length data"
    by (auto simp: ParseRelMapFile_def Let_def split: if_splits)
  from ok have magic: "Uint32 (subslice data 0 4) = RelMapMagic"
    by (auto simp: ParseRelMapFile_def Let_def split: if_splits)
  from ok have num: "0 \<le> sint ?num" "sint ?num \<le> 62"
    by (auto simp: ParseRelMapFile_def Let_def RelMapMaxMappings_def split: if_splits)
  from ok have rm: "Magic rm = Uint32 (subslice data 0 4)" "NumMappings rm = ?num"
      "Mappings rm = readMappings (nat (sint ?num)) data 8 []"
    by (auto simp: ParseRelMapFile_def Let_def split: if_splits)
  have fits: "8 + 8 * nat (sint ?num) \<le> length data"
    using len num by linarith
  have length_ms: "length (Mappings rm) = nat (sint ?num)"
    using readMappings_length[OF fits, of "[]"] by (simp add: rm)
  have nth: "Mappings rm ! i =
             \<lparr>OID = Uint32 (subslice data (8 + 8 * i) (8 + 8 * i + 4)),
              Filenode = Uint32 (subslice data (8 + 8 * i + 4) (8 + 8 * i + 8))\<rparr>"
    if "i < length (Mappings rm)" for i
  proof -
    from that length_ms have "i < nat (sint ?num)" by simp
    with readMappings_nth[OF fits, of i "[]"] show ?thesis by (simp add: rm(3))
  qed
  have fn: "GetFilenode rm (OID (Mappings rm ! i)) = Filenode (Mappings rm ! i)"
    if "i < length (Mappings rm)" "\<forall>j<i. OID (Mappings rm ! j) \<noteq> OID (Mappings rm ! i)" for i
    unfolding GetFilenode_def using that by (rule firstFilenode_nth)
  have oid: "GetOID rm (Filenode (Mappings rm ! i)) = OID (Mappings rm ! i)"
    if "i < length (Mappings rm)" "\<forall>j<i. Filenode (Mappings rm ! j) \<noteq> Filenode (Mappings rm ! i)" for i
    unfolding GetOID_def using that by (rule firstOID_nth)
  show ?thesis
    using magic num length_ms nth fn oid by (simp add: rm RelMapMagic_def)
qed

text \<open>
  The map file of the specification's scenario, mappings \<open>(1262, 1262)\<close> and
  \<open>(1259, 16384)\<close>: the second mapping is found in both directions.
\<close>

theorem ParseRelMapFile_lookup_witness:
  "ParseRelMapFile relmap_example =
     Inr \<lparr>Magic = 0x592717, NumMappings = 2,
          Mappings = [\<lparr>OID = 1262, Filenode = 1262\<rparr>, \<lparr>OID = 1259, Filenode = 16384\<rparr>],
          CRC = 0, IsGlobal = False, Path = []\<rparr>
   \<and> GetFilenode \<lparr>Magic = 0x592717, NumMappings = 2,
          Mappings = [\<lparr>OID = 1262, Filenode = 1262\<rparr>, \<lparr>OID = 1259, Filenode = 16384\<rparr>],
          CRC = 0, IsGlobal = False, Path = []\<rparr> 1259 = 16384
   \<and> GetOID \<lparr>Magic = 0x592717, NumMappings = 2,
          Mappings = [\<lparr>OID = 1262, Filenode = 1262\<rparr>, \<lparr>OID = 1259, Filenode = 16384\<rparr>],
          CRC = 0, IsGlobal = False, Path = []\<rparr> 16384 = 1259"
proof -
  let ?rm = "\<lparr>Magic = 0x592717, NumMappings = 2,
          Mappings = [\<lparr>OID = 1262, Filenode = 1262\<rparr>, \<lparr>OID = 1259, Filenode = 16384\<rparr>],
          CRC = 0, IsGlobal = False, Path = []\<rparr>"
  have p: "ParseRelMapFile relmap_example = Inr ?rm"
    by (rule ParseRelMapFile_example)
  from ParseRelMapFile_lookup[OF p]
  have all: "\<forall>i<length (Mappings ?rm).
           ((\<forall>j<i. OID (Mappings ?rm ! j) \<noteq> OID (Mappings ?rm ! i)) \<longrightarrow>
                GetFilenode ?rm (OID (Mappings ?rm ! i)) = Filenode (Mappings ?rm ! i))
           \<and> ((\<forall>j<i. Filenode (Mappings ?rm ! j) \<noteq> Filenode (Mappings ?rm ! i)) \<longrightarrow>
                GetOID ?rm (Filenode (Mappings ?rm ! i)) = OID (Mappings ?rm ! i))"
    by blast
  have "(1::nat) < length (Mappings ?rm)" by simp
  with all have
    "((\<forall>j<1. OID (Mappings ?rm ! j) \<noteq> OID (Mappings ?rm ! 1)) \<longrightarrow>
                GetFilenode ?rm (OID (Mappings ?rm ! 1)) = Filenode (Mappings ?rm ! 1))
     \<and> ((\<forall>j<1. Filenode (Mappings ?rm ! j) \<noteq> Filenode (Mappings ?rm ! 1)) \<longrightarrow>
                GetOID ?rm (Filenode (Mappings ?rm ! 1)) = OID (Mappings ?rm ! 1))"
    by blast
  then have "GetFilenode ?rm 1259 = 16384 \<and> GetOID ?rm 16384 = 1259"
    by simp
  with p show ?thesis by simp
qed

subsection \<open>Block-range parser\<close>

text \<open>
  C7. The block-range string parser maps the empty string to no range, \<open>"5"\<close> to
  \<open>(5,5)\<close>, \<open>"0:10"\<close> to \<open>(0,10)\<close>, \<open>"5:"\<close> to \<open>(5,-1)\<close>, \<open>":20"\<close> to \<open>(-1,20)\<close>,
  and rejects \<open>"10:5"\<close>, \<open>"-1:5"\<close> and \<open>"abc"\<close>. In general every range it accepts has
  each bound either non-negative or the marker \<open>-1\<close>, the marker only for a bound that is
  absent from the string (nothing before or after the colon), and never a start
  greater than the end when both are present.
\<close>

theorem ParseBlockRange_shapes:
  "ParseBlockRange '''' = Inr None
   \<and> ParseBlockRange ''5'' = Inr (Some \<lparr>Start = 5, End = 5\<rparr>)
   \<and> ParseBlockRange ''0:10'' = Inr (Some \<lparr>Start = 0, End = 10\<rparr>)
   \<and> ParseBlockRange ''5:'' = Inr (Some \<lparr>Start = 5, End = - 1\<rparr>)
   \<and> ParseBlockRange '':20'' = Inr (Some \<lparr>Start = - 1, End = 20\<rparr>)
   \<and> ParseBlockRange ''10:5'' = Inl (StartGreaterThanEnd 10 5)
   \<and> ParseBlockRange ''-1:5'' = Inl StartBlockNegative
   \<and> ParseBlockRange ''abc'' = Inl (InvalidBlockNumber ''abc'')
   \<and> (\<forall>s br. ParseBlockRange s = Inr (Some br) \<longrightarrow>
          (Start br = - 1 \<or> 0 \<le> Start br) \<and> (End br = - 1 \<or> 0 \<le> End br)
          \<and> \<not> (0 \<le> Start br \<and> 0 \<le> End br \<and> End br < Start br)
          \<and> (Start br = - 1 \<longrightarrow> Contains s '':'' \<and> fst (SplitN2 s '':'') = [])
          \<and> (End br = - 1 \<longrightarrow> Contains s '':'' \<and> snd (SplitN2 s '':'') = []))"
proof -
  have shapes:
    "ParseBlockRange '''' = Inr None"
    "ParseBlockRange ''5'' = Inr (Some \<lparr>Start = 5, End = 5\<rparr>)"
    "ParseBlockRange ''0:10'' = Inr (Some \<lparr>Start = 0, End = 10\<rparr>)"
    "ParseBlockRange ''5:'' = Inr (Some \<lparr>Start = 5, End = - 1\<rparr>)"
    "ParseBlockRange '':20'' = Inr (Some \<lparr>Start = - 1, End = 20\<rparr>)"
    "ParseBlockRange ''10:5'' = Inl (StartGreaterThanEnd 10 5)"
    "ParseBlockRange ''-1:5'' = Inl StartBlockNegative"
    "ParseBlockRange ''abc'' = Inl (InvalidBlockNumber ''abc'')"
    by (simp_all add: ParseBlockRange_def Atoi_def)
  have general: "(Start br = - 1 \<or> 0 \<le> Start br) \<and> (End br = - 1 \<or> 0 \<le> End br)
          \<and> \<not> (0 \<le> Start br \<and> 0 \<le> End br \<and> End br < Start br)
          \<and> (Start br = - 1 \<longrightarrow> Contains s '':'' \<and> fst (SplitN2 s '':'') = [])
          \<and> (End br = - 1 \<longrightarrow> Contains s '':'' \<and> snd (SplitN2 s '':'') = [])"
    if "ParseBlockRange s = Inr (Some br)" for s br
    using that
    by (auto simp: ParseBlockRange_def Let_def split: if_splits sum.splits)
  from shapes general show ?thesis by blast
qed

text \<open>The general part applied to the input \<open>"3:7"\<close>.\<close>

theorem ParseBlockRange_shapes_witness:
  "ParseBlockRange ''3:7'' = Inr (Some \<lparr>Start = 3, End = 7\<rparr>)
   \<and> (Start \<lparr>Start = 3, End = 7\<rparr> = - 1 \<or> 0 \<le> Start \<lparr>Start = 3, End = 7\<rparr>)
   \<and> \<not> (0 \<le> Start \<lparr>Start = 3, End = 7\<rparr> \<and> 0 \<le> End \<lparr>Start = 3, End = 7\<rparr>
          \<and> End \<lparr>Start = 3, End = 7\<rparr> < Start \<lparr>Start = 3, End = 7\<rparr>)"
proof -
  have p: "ParseBlockRange ''3:7'' = Inr (Some \<lparr>Start = 3, End = 7\<rparr>)"
    by (simp add: ParseBlockRange_def Atoi_def)
  from ParseBlockRange_shapes
  have "\<forall>s br. ParseBlockRange s = Inr (Some br) \<longrightarrow>
          (Start br = - 1 \<or> 0 \<le> Start br) \<and> (End br = - 1 \<or> 0 \<le> End br)
          \<and> \<not> (0 \<le> Start br \<and> 0 \<le> End br \<and> End br < Start br)"
    by blast
  with p show ?thesis by blast
qed

subsection \<open>Write-ahead log pages\<close>

lemma wal_header: "parsePageHeader wal_cont_page =
    \<lparr>PageMagic = 0xD113, PageInfo = 1, TimelineID = 1, PageAddr = 0x01000000, RemLen = 5,
      SystemID = 0, SegSize = 0, BlockSize = 0\<rparr>"
  by (simp add: parsePageHeader_def wal_cont_page_def subslice_def Uint16_def Uint32_def Uint64_def
       XLP_LONG_HEADER_def Let_def)

lemma wal_rec: "parseXLogRecord (drop 32 wal_cont_page) 32 =
   (Some \<lparr>TotalLen = 24, TransactionID = 7, PrevLSN = 0, Info = 0, ResourceMgr = 10,
           RecCRC = 0x12345678, RecLSN = 32, RMName = ''Heap'', Operation = ''INSERT'',
           Blocks = []\<rparr>, 24)"
  by (simp add: parseXLogRecord_def wal_cont_page_def subslice_def Uint32_def Uint64_def
       XLogRecordSize_def WALPageSize_def Let_def rmgrName_def rmgrNames_def
       operationName_def operationNames_def)

lemma walRecords_acc:
  "walRecords data baseOffset pos records = records @ walRecords data baseOffset pos []"
proof (induction "length data - pos" arbitrary: pos records rule: less_induct)
  case less
  show ?case
  proof (cases "pos + XLogRecordSize \<le> length data \<and> \<not> isZeroPadding (drop pos data)
                \<and> snd (parseXLogRecord (drop pos data) (baseOffset + of_nat pos)) \<noteq> 0")
    case False
    then have "walRecords data baseOffset pos rs = rs" for rs
      by (subst walRecords.simps) (auto split: prod.splits)
    then show ?thesis by simp
  next
    case True
    obtain rec consumed where p:
      "parseXLogRecord (drop pos data) (baseOffset + of_nat pos) = (rec, consumed)"
      by (cases "parseXLogRecord (drop pos data) (baseOffset + of_nat pos)")
    with True have c: "consumed \<noteq> 0" by simp
    let ?pos = "nat (align8 (int (pos + consumed)))"
    have step: "walRecords data baseOffset pos rs =
        walRecords data baseOffset ?pos (case rec of None \<Rightarrow> rs | Some r \<Rightarrow> rs @ [r])" for rs
      using True p c by (subst walRecords.simps) simp
    have "int (pos + consumed) \<le> align8 (int (pos + consumed))"
      by (rule align8_ge)
    with c True have "length data - ?pos < length data - pos"
      by (simp add: XLogRecordSize_def) linarith
    then have ih: "walRecords data baseOffset ?pos rs = rs @ walRecords data baseOffset ?pos []" for rs
      by (rule less)
    show ?thesis
    proof (cases rec)
      case None
      show ?thesis
        using ih[of records] by (simp only: step None option.case)
    next
      case (Some a)
      show ?thesis
        by (simp only: step Some option.case append_Nil ih[of "records @ [a]"] ih[of "[a]"]
              append_assoc)
    qed
  qed
qed

lemma parseXLogRecord_Some:
  "parseXLogRecord d lsn = (rec, consumed) \<Longrightarrow> consumed \<noteq> 0 \<Longrightarrow>
   \<exists>r. rec = Some r \<and> RecLSN r = lsn \<and> consumed = unat (TotalLen r)"
  by (auto simp: parseXLogRecord_def Let_def split: if_splits)

lemma walRecords_first:
  assumes "walRecords data baseOffset pos [] = r # rs"
  shows "pos + XLogRecordSize \<le> length data
         \<and> parseXLogRecord (drop pos data) (baseOffset + of_nat pos) = (Some r, unat (TotalLen r))
         \<and> RecLSN r = baseOffset + of_nat pos"
proof (cases "pos + XLogRecordSize \<le> length data \<and> \<not> isZeroPadding (drop pos data)
                \<and> snd (parseXLogRecord (drop pos data) (baseOffset + of_nat pos)) \<noteq> 0")
  case False
  then have "walRecords data baseOffset pos [] = []"
    by (subst walRecords.simps) (auto split: prod.splits)
  with assms show ?thesis by simp
next
  case True
  obtain rec consumed where p:
    "parseXLogRecord (drop pos data) (baseOffset + of_nat pos) = (rec, consumed)"
    by (cases "parseXLogRecord (drop pos data) (baseOffset + of_nat pos)")
  with True have c: "consumed \<noteq> 0" by simp
  from parseXLogRecord_Some[OF p c] obtain r' where r': "rec = Some r'"
    "RecLSN r' = baseOffset + of_nat pos" "consumed = unat (TotalLen r')" by blast
  let ?pos = "nat (align8 (int (pos + consumed)))"
  have "walRecords data baseOffset pos [] = walRecords data baseOffset ?pos [r']"
    using True p c r' by (subst walRecords.simps) simp
  also have "\<dots> = [r'] @ walRecords data baseOffset ?pos []"
    by (rule walRecords_acc)
  finally have "r = r'" using assms by simp
  with True p r' show ?thesis by simp
qed

lemma wal_cont_page_records:
  "parseWALPage wal_cont_page 0 0 =
     Inr [\<lparr>TotalLen = 24, TransactionID = 7, PrevLSN = 0, Info = 0, ResourceMgr = 10,
           RecCRC = 0x12345678, RecLSN = 32, RMName = ''Heap'', Operation = ''INSERT'',
           Blocks = []\<rparr>]"
proof -
  have len: "length wal_cont_page = 56" by (simp add: wal_cont_page_def)
  have z: "\<not> isZeroPadding (drop 32 wal_cont_page)"
    by (simp add: isZeroPadding_def wal_cont_page_def)
  have w: "walRecords wal_cont_page 0 32 [] =
     [\<lparr>TotalLen = 24, TransactionID = 7, PrevLSN = 0, Info = 0, ResourceMgr = 10,
           RecCRC = 0x12345678, RecLSN = 32, RMName = ''Heap'', Operation = ''INSERT'',
           Blocks = []\<rparr>]"
    apply (subst walRecords.simps)
    apply (simp add: len z wal_rec XLogRecordSize_def align8_eq)
    apply (subst walRecords.simps)
    apply (simp add: len XLogRecordSize_def)
    done
  show ?thesis
    by (simp add: parseWALPage_def wal_header len ShortHeaderSize_def LongHeaderSize_def
          isValidMagic_def WAL_MAGIC_16_def XLP_LONG_HEADER_def XLP_FIRST_IS_CONTRECORD_def
          align8_eq w Let_def)
qed

text \<open>
  C8. For every WAL page (of at least a short header) a magic outside the known set of
  engine versions 12 to 16 yields an error and no records. When the magic is known and
  the header carries the first-record-is-continuation flag with \<open>remaining_length = k\<close>,
  the first record parsed on the page, if any, is the record parsed at offset
  \<open>align8(header_size + k)\<close>, with \<open>header_size\<close> 24 for a short header and 40 for a long
  one; its LSN is the base offset plus that offset.
\<close>

theorem parseWALPage_continuation:
  assumes len: "ShortHeaderSize \<le> length data"
  shows "(\<not> isValidMagic (PageMagic (parsePageHeader data)) \<longrightarrow>
            parseWALPage data baseOffset pageNum
              = Inl (InvalidWALMagic (PageMagic (parsePageHeader data))))
       \<and> (isValidMagic (PageMagic (parsePageHeader data))
            \<and> PageInfo (parsePageHeader data) AND XLP_FIRST_IS_CONTRECORD \<noteq> 0 \<longrightarrow>
            (\<exists>records. parseWALPage data baseOffset pageNum = Inr records
               \<and> (\<forall>r rs. records = r # rs \<longrightarrow>
                    RecLSN r = baseOffset + of_nat (nat (align8 (int
                        ((if PageInfo (parsePageHeader data) AND XLP_LONG_HEADER \<noteq> 0
                          then 40 else 24) + unat (RemLen (parsePageHeader data))))))
                    \<and> parseXLogRecord
                        (drop (nat (align8 (int
                          ((if PageInfo (parsePageHeader data) AND XLP_LONG_HEADER \<noteq> 0
                            then 40 else 24) + unat (RemLen (parsePageHeader data)))))) data)
                        (RecLSN r)
                      = (Some r, unat (TotalLen r)))))"
proof (intro conjI impI)
  assume "\<not> isValidMagic (PageMagic (parsePageHeader data))"
  with len show "parseWALPage data baseOffset pageNum
              = Inl (InvalidWALMagic (PageMagic (parsePageHeader data)))"
    by (simp add: parseWALPage_def Let_def)
next
  let ?h = "parsePageHeader data"
  let ?hs = "if PageInfo ?h AND XLP_LONG_HEADER \<noteq> 0 then 40 else (24 :: nat)"
  let ?off = "nat (align8 (int (?hs + unat (RemLen ?h))))"
  assume a: "isValidMagic (PageMagic ?h) \<and> PageInfo ?h AND XLP_FIRST_IS_CONTRECORD \<noteq> 0"
  have p: "parseWALPage data baseOffset pageNum = Inr (walRecords data baseOffset ?off [])"
  proof (cases "0 < RemLen ?h")
    case True
    show ?thesis
    proof (cases "PageInfo ?h AND XLP_LONG_HEADER \<noteq> 0")
      case long: True
      with len a True show ?thesis
        by (simp add: parseWALPage_def Let_def ShortHeaderSize_def LongHeaderSize_def)
    next
      case short: False
      with len a True show ?thesis
        by (simp add: parseWALPage_def Let_def ShortHeaderSize_def LongHeaderSize_def)
    qed
  next
    case False
    then have z: "RemLen ?h = 0" by (simp add: word_greater_zero_iff)
    show ?thesis
    proof (cases "PageInfo ?h AND XLP_LONG_HEADER \<noteq> 0")
      case long: True
      with len a z show ?thesis
        by (simp add: parseWALPage_def Let_def ShortHeaderSize_def LongHeaderSize_def align8_24)
    next
      case short: False
      with len a z show ?thesis
        by (simp add: parseWALPage_def Let_def ShortHeaderSize_def LongHeaderSize_def align8_24)
    qed
  qed
  have "RecLSN r = baseOffset + of_nat ?off
        \<and> parseXLogRecord (drop ?off data) (RecLSN r) = (Some r, unat (TotalLen r))"
    if "walRecords data baseOffset ?off [] = r # rs" for r rs
    using walRecords_first[OF that] by simp
  with p show "\<exists>records. parseWALPage data baseOffset pageNum = Inr records
               \<and> (\<forall>r rs. records = r # rs \<longrightarrow>
                    RecLSN r = baseOffset + of_nat ?off
                    \<and> parseXLogRecord (drop ?off data) (RecLSN r) = (Some r, unat (TotalLen r)))"
    by blast
qed

text \<open>
  The page fragment \<open>wal_cont_page\<close>: short header, continuation flag, \<open>k = 5\<close>; its one
  record is found at offset \<open>align8(24 + 5) = 32\<close>.
\<close>

theorem parseWALPage_continuation_witness:
  "ShortHeaderSize \<le> length wal_cont_page
   \<and> isValidMagic (PageMagic (parsePageHeader wal_cont_page))
   \<and> PageInfo (parsePageHeader wal_cont_page) AND XLP_FIRST_IS_CONTRECORD \<noteq> 0
   \<and> RemLen (parsePageHeader wal_cont_page) = 5
   \<and> (\<exists>r. parseWALPage wal_cont_page 0 0 = Inr [r] \<and> RecLSN r = 32 \<and> TransactionID r = 7)
   \<and> align8 (24 + 5) = 32"
proof -
  let ?r = "\<lparr>TotalLen = 24, TransactionID = 7, PrevLSN = 0, Info = 0, ResourceMgr = 10,
           RecCRC = 0x12345678, RecLSN = 32, RMName = ''Heap'', Operation = ''INSERT'',
           Blocks = []\<rparr>"
  have len: "ShortHeaderSize \<le> length wal_cont_page"
    by (simp add: wal_cont_page_def ShortHeaderSize_def)
  have valid: "isValidMagic (PageMagic (parsePageHeader wal_cont_page))
       \<and> PageInfo (parsePageHeader wal_cont_page) AND XLP_FIRST_IS_CONTRECORD \<noteq> 0"
    by (simp add: wal_header isValidMagic_def WAL_MAGIC_16_def XLP_FIRST_IS_CONTRECORD_def)
  from parseWALPage_continuation[OF len, of 0 0] valid
  obtain records where recs: "parseWALPage wal_cont_page 0 0 = Inr records"
    and first: "\<forall>r rs. records = r # rs \<longrightarrow>
          RecLSN r = 0 + of_nat (nat (align8 (int
              ((if PageInfo (parsePageHeader wal_cont_page) AND XLP_LONG_HEADER \<noteq> 0
                then 40 else 24) + unat (RemLen (parsePageHeader wal_cont_page))))))"
    by blast
  from recs have "records = [?r]" by (simp add: wal_cont_page_records)
  with first have "RecLSN ?r = 0 + of_nat (nat (align8 (int
              ((if PageInfo (parsePageHeader wal_cont_page) AND XLP_LONG_HEADER \<noteq> 0
                then 40 else 24) + unat (RemLen (parsePageHeader wal_cont_page))))))"
    by blast
  then have "RecLSN ?r = of_nat (nat (align8 (24 + 5)))"
    by (simp add: wal_header XLP_LONG_HEADER_def)
  moreover have "align8 (24 + 5) = 32" by (simp add: align8_eq)
  ultimately show ?thesis
    using len valid by (simp add: wal_cont_page_records wal_header)
qed

subsection \<open>Block information\<close>

lemma hexUpper_small: "n < 16 \<Longrightarrow> hexUpper n = [hexDigit n]"
  by (simp add: hexUpper.simps)

lemma FormatLSN_0: "FormatLSN 0 = ''0/0''"
  by (simp add: FormatLSN_def hexUpper_small hexDigit_def)

lemma page_cex_fields:
  "length page_upper_below_lower = 8192"
  "list_all (\<lambda>b. b = 0) (subslice page_upper_below_lower 0 8192) = False"
  "u16 page_upper_below_lower 12 = 100"
  "u16 page_upper_below_lower 14 = 50"
  "u16 page_upper_below_lower 8 = 0"
  "u16 page_upper_below_lower 10 = 0"
  "u16 page_upper_below_lower 16 = 0"
  "u16 page_upper_below_lower 18 = 0"
  "u64 page_upper_below_lower 0 = 0"
  by (simp_all add: page_upper_below_lower_def subslice_def u16_def u64_def Uint16_def Uint64_def)

text \<open>
  A non-empty page with \<open>lower = 100 \<ge> 24\<close> and \<open>upper = 50 \<le> 8192\<close>: the reported item
  count is \<open>(100 - 24) / 4 = 19\<close>, but the reported free space is \<open>0\<close>, not
  \<open>upper - lower = -50\<close>.
\<close>

theorem ParseBlockInfo_free_space_counterexample:
  "ParseBlockInfo page_upper_below_lower 0 =
     Some \<lparr>BlockNumber = 0, LSN = ''0/0'', Checksum = 0, Flags = 0,
           Lower = 100, Upper = 50, Special = 0, InfoPageSize = 0, Version = 0,
           ItemCount = 19, FreeSpace = 0, IsEmpty = False\<rparr>
   \<and> (0 :: int) \<noteq> 50 - 100"
  by (simp add: ParseBlockInfo_def page_cex_fields PageSize_def headerSize_def itemIDSize_def
      FormatLSN_0 Let_def)

lemma page_test_fields:
  "length page_test = 8192"
  "list_all (\<lambda>b. b = 0) (subslice page_test 0 8192) = False"
  "u16 page_test 12 = 28"
  "u16 page_test 14 = 8000"
  by (simp_all add: page_test_def subslice_def u16_def Uint16_def)

text \<open>
  C9 (amended). For every non-empty (not all-zero) page whose header satisfies
  \<open>lower \<ge> header_size\<close>, \<open>upper \<le> page_size\<close> and \<open>lower \<le> upper\<close>, the parsed block
  information reports \<open>item_count = (lower - 24) / 4\<close> and \<open>free_space = upper - lower\<close>.
\<close>

theorem ParseBlockInfo_counts:
  assumes len: "PageSize \<le> length data"
    and nonzero: "\<not> list_all (\<lambda>b. b = 0) (subslice data 0 PageSize)"
    and lower: "int headerSize \<le> uint (u16 data 12)"
    and upper: "uint (u16 data 14) \<le> int PageSize"
    and order: "u16 data 12 \<le> u16 data 14"
  shows "\<exists>info. ParseBlockInfo data blockNumber = Some info
           \<and> \<not> IsEmpty info
           \<and> Lower info = u16 data 12 \<and> Upper info = u16 data 14
           \<and> ItemCount info = (uint (Lower info) - 24) div 4
           \<and> FreeSpace info = uint (Upper info) - uint (Lower info)"
proof -
  note l = lower
  show ?thesis
  proof (cases "u16 data 12 < u16 data 14")
    case True
    with len nonzero l show ?thesis
      by (simp add: ParseBlockInfo_def Let_def headerSize_def itemIDSize_def)
  next
    case False
    with order have eq: "u16 data 12 = u16 data 14" by simp
    with len nonzero l show ?thesis
      by (simp add: ParseBlockInfo_def Let_def headerSize_def itemIDSize_def)
  qed
qed

text \<open>
  The page of the repository's test, \<open>lower = 28\<close> and \<open>upper = 8000\<close>: one item and 7972
  free bytes.
\<close>

theorem ParseBlockInfo_counts_witness:
  "\<exists>info. ParseBlockInfo page_test 0 = Some info
           \<and> \<not> IsEmpty info
           \<and> Lower info = 28 \<and> Upper info = 8000
           \<and> ItemCount info = 1
           \<and> FreeSpace info = 7972"
proof -
  have "\<exists>info. ParseBlockInfo page_test 0 = Some info
           \<and> \<not> IsEmpty info
           \<and> Lower info = u16 page_test 12 \<and> Upper info = u16 page_test 14
           \<and> ItemCount info = (uint (Lower info) - 24) div 4
           \<and> FreeSpace info = uint (Upper info) - uint (Lower info)"
    by (rule ParseBlockInfo_counts)
       (simp_all add: page_test_fields PageSize_def headerSize_def)
  then obtain info where "ParseBlockInfo page_test 0 = Some info" "\<not> IsEmpty info"
      "Lower info = 28" "Upper info = 8000"
      "ItemCount info = (uint (Lower info) - 24) div 4"
      "FreeSpace info = uint (Upper info) - uint (Lower info)"
    by (auto simp: page_test_fields)
  then show ?thesis by simp
qed

subsection \<open>Native decompressor\<close>








end
